theory Spec2Isabelle
  imports Complex_Main "HOL-Library.Word"
begin

unbundle bit_operations_syntax

section \<open>The NEAT core of \<^verbatim>\<open>src/src/neat.c\<close>\<close>

text \<open>
  Conventions of the embedding.
  \<^item> A C \<^verbatim>\<open>double\<close> is a value of the type \<open>double\<close> below: a real number, an
    infinity or NaN, with the IEEE 754 rules for the special values. Rounding, overflow
    of a finite result and the sign of zero are not represented.
  \<^item> A C \<^verbatim>\<open>int\<close> is an \<^typ>\<open>int\<close>; the counters of the innovation table and the
    staleness of a species are assumed not to reach \<open>2^31\<close> (signed overflow is undefined
    in C). The conversion of a \<open>double\<close> to \<^verbatim>\<open>int\<close> checks the range.
  \<^item> A growable array (pointer, count, capacity) is a list; the count is its length.
    \<^verbatim>\<open>neat_malloc\<close> and \<^verbatim>\<open>neat_realloc\<close> leave the process on failure, so an
    allocation that returns has succeeded. A pointer to an element of an array is the
    index of that element. The capacity of the connection array is kept, because
    \<^verbatim>\<open>neat_mutate_add_node\<close> holds a pointer into that array across a call that may
    reallocate it; no pointer into the node array is held across \<^verbatim>\<open>neat_add_node\<close>.
  \<^item> The global \<^verbatim>\<open>g_random_seed\<close> (an \<^verbatim>\<open>unsigned long\<close>, 64 bits on LP64) is passed
    in and returned by every function that draws a random number.
  \<^item> An execution for which C defines no behaviour has the outcome \<open>Undefined\<close>. It is
    not an error value of the program.
\<close>

datatype 'a outcome = Undefined | Returns 'a

subsection \<open>Floating-point values\<close>

datatype double = NaN | MInf | Num real | PInf

instantiation double :: "{plus, minus, uminus, times, divide, abs, ord}"
begin

fun plus_double :: "double \<Rightarrow> double \<Rightarrow> double" where
  "plus_double (Num a) (Num b) = Num (a + b)"
| "plus_double NaN y = NaN"
| "plus_double x NaN = NaN"
| "plus_double PInf MInf = NaN"
| "plus_double MInf PInf = NaN"
| "plus_double PInf y = PInf"
| "plus_double x PInf = PInf"
| "plus_double MInf y = MInf"
| "plus_double x MInf = MInf"

fun uminus_double :: "double \<Rightarrow> double" where
  "uminus_double (Num a) = Num (- a)"
| "uminus_double NaN = NaN"
| "uminus_double PInf = MInf"
| "uminus_double MInf = PInf"

definition minus_double :: "double \<Rightarrow> double \<Rightarrow> double" where
  "minus_double x y = x + (- y)"

fun times_double :: "double \<Rightarrow> double \<Rightarrow> double" where
  "times_double (Num a) (Num b) = Num (a * b)"
| "times_double NaN y = NaN"
| "times_double x NaN = NaN"
| "times_double PInf (Num b) = (if b = 0 then NaN else if b > 0 then PInf else MInf)"
| "times_double MInf (Num b) = (if b = 0 then NaN else if b > 0 then MInf else PInf)"
| "times_double (Num a) PInf = (if a = 0 then NaN else if a > 0 then PInf else MInf)"
| "times_double (Num a) MInf = (if a = 0 then NaN else if a > 0 then MInf else PInf)"
| "times_double PInf PInf = PInf"
| "times_double PInf MInf = MInf"
| "times_double MInf PInf = MInf"
| "times_double MInf MInf = PInf"

text \<open>A zero divisor counts as positive zero; no divisor in neat.c can be negative zero.\<close>

fun divide_double :: "double \<Rightarrow> double \<Rightarrow> double" where
  "divide_double (Num a) (Num b) =
     (if b = 0 then (if a = 0 then NaN else if a > 0 then PInf else MInf) else Num (a / b))"
| "divide_double NaN y = NaN"
| "divide_double x NaN = NaN"
| "divide_double PInf (Num b) = (if b \<ge> 0 then PInf else MInf)"
| "divide_double MInf (Num b) = (if b \<ge> 0 then MInf else PInf)"
| "divide_double (Num a) PInf = Num 0"
| "divide_double (Num a) MInf = Num 0"
| "divide_double PInf PInf = NaN"
| "divide_double PInf MInf = NaN"
| "divide_double MInf PInf = NaN"
| "divide_double MInf MInf = NaN"

fun abs_double :: "double \<Rightarrow> double" where
  "abs_double (Num a) = Num \<bar>a\<bar>"
| "abs_double NaN = NaN"
| "abs_double PInf = PInf"
| "abs_double MInf = PInf"

text \<open>Every comparison with NaN is false.\<close>

fun less_double :: "double \<Rightarrow> double \<Rightarrow> bool" where
  "less_double (Num a) (Num b) = (a < b)"
| "less_double NaN y = False"
| "less_double x NaN = False"
| "less_double PInf y = False"
| "less_double x MInf = False"
| "less_double MInf y = True"
| "less_double x PInf = True"

fun less_eq_double :: "double \<Rightarrow> double \<Rightarrow> bool" where
  "less_eq_double (Num a) (Num b) = (a \<le> b)"
| "less_eq_double NaN y = False"
| "less_eq_double x NaN = False"
| "less_eq_double MInf y = True"
| "less_eq_double x PInf = True"
| "less_eq_double PInf y = False"
| "less_eq_double x MInf = False"

instance ..

end

instantiation double :: inverse
begin

definition inverse_double :: "double \<Rightarrow> double" where
  "inverse_double x = divide (Num 1) x"

instance ..

end



fun dexp :: "double \<Rightarrow> double" where
  "dexp (Num a) = Num (exp a)"
| "dexp NaN = NaN"
| "dexp PInf = PInf"
| "dexp MInf = Num 0"

fun dtanh :: "double \<Rightarrow> double" where
  "dtanh (Num a) = Num (tanh a)"
| "dtanh NaN = NaN"
| "dtanh PInf = Num 1"
| "dtanh MInf = Num (- 1)"

fun dsin :: "double \<Rightarrow> double" where
  "dsin (Num a) = Num (sin a)"
| "dsin x = NaN"

fun dcos :: "double \<Rightarrow> double" where
  "dcos (Num a) = Num (cos a)"
| "dcos x = NaN"

fun dsqrt :: "double \<Rightarrow> double" where
  "dsqrt (Num a) = (if a < 0 then NaN else Num (sqrt a))"
| "dsqrt NaN = NaN"
| "dsqrt PInf = PInf"
| "dsqrt MInf = NaN"

fun dlog :: "double \<Rightarrow> double" where
  "dlog (Num a) = (if a < 0 then NaN else if a = 0 then MInf else Num (ln a))"
| "dlog NaN = NaN"
| "dlog PInf = PInf"
| "dlog MInf = NaN"

definition double_of_nat :: "nat \<Rightarrow> double" where
  "double_of_nat n = Num (real n)"

definition double_of_int :: "int \<Rightarrow> double" where
  "double_of_int i = Num (real_of_int i)"

text \<open>
  The conversion of a \<^verbatim>\<open>double\<close> to a 32-bit \<^verbatim>\<open>int\<close> discards the fractional part; C
  defines it only when the result fits the \<^verbatim>\<open>int\<close>, so not for NaN, an infinity or a
  value beyond \<open>INT_MIN\<close> and \<open>INT_MAX\<close>.
\<close>

fun c_double_to_int :: "double \<Rightarrow> int outcome" where
  "c_double_to_int (Num x) =
     (if - 2147483648 \<le> (if x \<ge> 0 then \<lfloor>x\<rfloor> else \<lceil>x\<rceil>)
         \<and> (if x \<ge> 0 then \<lfloor>x\<rfloor> else \<lceil>x\<rceil>) \<le> 2147483647
      then Returns (if x \<ge> 0 then \<lfloor>x\<rfloor> else \<lceil>x\<rceil>) else Undefined)"
| "c_double_to_int x = Undefined"

subsection \<open>config.h\<close>

datatype neat_activation_type =
    NEAT_ACTIVATION_SIGMOID
  | NEAT_ACTIVATION_TANH
  | NEAT_ACTIVATION_RELU
  | NEAT_ACTIVATION_LEAKY_RELU
  | NEAT_ACTIVATION_LINEAR
  | NEAT_ACTIVATION_STEP
  | NEAT_ACTIVATION_SOFTSIGN
  | NEAT_ACTIVATION_SIN
  | NEAT_ACTIVATION_GAUSSIAN
  | NEAT_ACTIVATION_ABS

datatype neat_node_type =
  NEAT_NODE_INPUT | NEAT_NODE_HIDDEN | NEAT_NODE_OUTPUT | NEAT_NODE_BIAS

datatype neat_node_placement =
  NEAT_PLACEMENT_INPUT | NEAT_PLACEMENT_HIDDEN | NEAT_PLACEMENT_OUTPUT

definition NEAT_DEFAULT_ALLOC_SIZE :: nat where
  "NEAT_DEFAULT_ALLOC_SIZE = 128"

definition NEAT_GROWTH_FACTOR :: nat where
  "NEAT_GROWTH_FACTOR = 2"

definition NEAT_MAX_ACTIVATION_FUNCS :: int where
  "NEAT_MAX_ACTIVATION_FUNCS = 10"

definition NEAT_MAX_INPUTS :: nat where
  "NEAT_MAX_INPUTS = 1000"

definition NEAT_MAX_OUTPUTS :: nat where
  "NEAT_MAX_OUTPUTS = 100"


definition NEAT_COMPATIBILITY_THRESHOLD :: double where
  "NEAT_COMPATIBILITY_THRESHOLD = Num 3"

definition NEAT_EXCESS_COEFF :: double where
  "NEAT_EXCESS_COEFF = Num 1"

definition NEAT_DISJOINT_COEFF :: double where
  "NEAT_DISJOINT_COEFF = Num 1"

definition NEAT_WEIGHT_COEFF :: double where
  "NEAT_WEIGHT_COEFF = Num (4 / 10)"

definition NEAT_MUTATE_NODE_RATE :: double where
  "NEAT_MUTATE_NODE_RATE = Num (3 / 100)"

definition NEAT_MUTATE_LINK_RATE :: double where
  "NEAT_MUTATE_LINK_RATE = Num (5 / 100)"

definition NEAT_MUTATE_WEIGHT_RATE :: double where
  "NEAT_MUTATE_WEIGHT_RATE = Num (8 / 10)"

definition NEAT_MUTATE_TOGGLE_LINK_RATE :: double where
  "NEAT_MUTATE_TOGGLE_LINK_RATE = Num (1 / 10)"

definition NEAT_MUTATE_ACTIVATION_RATE :: double where
  "NEAT_MUTATE_ACTIVATION_RATE = Num (1 / 10)"

definition NEAT_WEIGHT_MUTATION_POWER :: double where
  "NEAT_WEIGHT_MUTATION_POWER = Num (25 / 10)"

definition NEAT_WEIGHT_RANDOM_STRENGTH :: double where
  "NEAT_WEIGHT_RANDOM_STRENGTH = Num 1"

text \<open>\<^verbatim>\<open>NEAT_ALLOW_RECURRENT\<close> is a macro that neat.c sets to 0 unless the build defines it.\<close>

definition NEAT_ALLOW_RECURRENT :: bool where
  "NEAT_ALLOW_RECURRENT = False"

fun activation_of_int :: "int \<Rightarrow> neat_activation_type" where
  "activation_of_int k =
     (if k = 0 then NEAT_ACTIVATION_SIGMOID
      else if k = 1 then NEAT_ACTIVATION_TANH
      else if k = 2 then NEAT_ACTIVATION_RELU
      else if k = 3 then NEAT_ACTIVATION_LEAKY_RELU
      else if k = 4 then NEAT_ACTIVATION_LINEAR
      else if k = 5 then NEAT_ACTIVATION_STEP
      else if k = 6 then NEAT_ACTIVATION_SOFTSIGN
      else if k = 7 then NEAT_ACTIVATION_SIN
      else if k = 8 then NEAT_ACTIVATION_GAUSSIAN
      else NEAT_ACTIVATION_ABS)"

subsection \<open>neat.h: the structures\<close>

record neat_node =
  node_id :: int
  node_type :: neat_node_type
  placement :: neat_node_placement
  activation_type :: neat_activation_type
  node_value :: double
  bias :: double
  active :: bool
  x_pos :: int

record neat_connection =
  innovation :: int
  in_node :: int
  out_node :: int
  weight :: double
  enabled :: bool

text \<open>\<open>evaluation_order\<close> is \<open>None\<close> for the C null pointer. \<open>connection_capacity\<close> is the
  number of elements that the connection array has room for; \<^verbatim>\<open>neat_create_genome\<close> sets it
  to \<open>NEAT_DEFAULT_ALLOC_SIZE\<close> and \<^verbatim>\<open>neat_add_connection\<close> alone changes it, so in every
  genome that neat.c builds it is at least 128 and at least the number of connections.\<close>

record neat_genome =
  genome_id :: int
  nodes :: "neat_node list"
  connections :: "neat_connection list"
  connection_capacity :: nat
  fitness :: double
  adjusted_fitness :: double
  global_rank :: int
  species_id :: int
  evaluation_order :: "int list option"

record neat_innovation =
  innovation_id :: int
  innov_in_node :: int
  innov_out_node :: int
  innovation_number :: int
  is_new_node :: bool
  innov_node_id :: int
  innov_weight :: double

record neat_innovation_table =
  innovations :: "neat_innovation list"
  next_innovation :: int
  next_node_id :: int
  next_species_id :: int

subsection \<open>Random numbers\<close>

definition xorshift32 :: "64 word \<Rightarrow> 64 word \<times> 64 word" where
  "xorshift32 seed =
     (let x1 = seed XOR push_bit 13 seed;
          x2 = x1 XOR drop_bit 17 x1;
          x3 = x2 XOR push_bit 5 x2
      in (x3, x3))"

definition UINT32_MAX :: double where
  "UINT32_MAX = Num 4294967295"

text \<open>The 64-bit value is divided by \<open>UINT32_MAX\<close>, so the result need not lie between
  \<open>mn\<close> and \<open>mx\<close>.\<close>

definition neat_random_uniform :: "double \<Rightarrow> double \<Rightarrow> 64 word \<Rightarrow> double \<times> 64 word" where
  "neat_random_uniform mn mx seed =
     (let (x, seed1) = xorshift32 seed
      in (mn + (mx - mn) * (double_of_nat (unat x) / UINT32_MAX), seed1))"

text \<open>When \<open>u1\<close> exceeds 1 the logarithm is positive and the square root is taken of a
  negative number: the result is NaN.\<close>

definition neat_random_normal :: "double \<Rightarrow> double \<Rightarrow> 64 word \<Rightarrow> double \<times> 64 word" where
  "neat_random_normal mean stddev seed =
     (let (u1, seed1) = neat_random_uniform (Num 0) (Num 1) seed;
          (u2, seed2) = neat_random_uniform (Num 0) (Num 1) seed1;
          z0 = dsqrt (Num (- 2) * dlog u1) * dcos (Num 2 * Num pi * u2)
      in (mean + stddev * z0, seed2))"

text \<open>
  \<^verbatim>\<open>min + (xorshift32() % (max - min + 1))\<close>; every caller passes \<open>mn = 0\<close> and
  \<open>mx \<ge> 0\<close>, where the unsigned arithmetic of C and this definition agree.
\<close>

definition neat_random_int :: "int \<Rightarrow> int \<Rightarrow> 64 word \<Rightarrow> int \<times> 64 word" where
  "neat_random_int mn mx seed =
     (let (x, seed1) = xorshift32 seed
      in (mn + int (unat x mod nat (mx - mn + 1)), seed1))"

subsection \<open>Activation functions\<close>

fun neat_activation :: "neat_activation_type \<Rightarrow> double \<Rightarrow> double" where
  "neat_activation NEAT_ACTIVATION_SIGMOID x = Num 1 / (Num 1 + dexp (- x))"
| "neat_activation NEAT_ACTIVATION_TANH x = dtanh x"
| "neat_activation NEAT_ACTIVATION_RELU x = (if x > Num 0 then x else Num 0)"
| "neat_activation NEAT_ACTIVATION_LEAKY_RELU x = (if x > Num 0 then x else Num (1 / 100) * x)"
| "neat_activation NEAT_ACTIVATION_LINEAR x = x"
| "neat_activation NEAT_ACTIVATION_STEP x = (if x > Num 0 then Num 1 else Num 0)"
| "neat_activation NEAT_ACTIVATION_SOFTSIGN x = x / (Num 1 + \<bar>x\<bar>)"
| "neat_activation NEAT_ACTIVATION_SIN x = dsin x"
| "neat_activation NEAT_ACTIVATION_GAUSSIAN x = dexp (- (x * x))"
| "neat_activation NEAT_ACTIVATION_ABS x = \<bar>x\<bar>"

subsection \<open>Nodes, connections, genomes\<close>

definition neat_create_node ::
  "int \<Rightarrow> neat_node_type \<Rightarrow> neat_node_placement \<Rightarrow> 64 word \<Rightarrow> neat_node \<times> 64 word" where
  "neat_create_node i ty pl seed =
     (let (b, seed1) = neat_random_normal (Num 0) (Num 1) seed
      in (\<lparr>node_id = i, node_type = ty, placement = pl,
           activation_type = NEAT_ACTIVATION_SIGMOID, node_value = Num 0, bias = b,
           active = True, x_pos = 0\<rparr>, seed1))"

definition neat_create_connection ::
  "int \<Rightarrow> int \<Rightarrow> int \<Rightarrow> double \<Rightarrow> bool \<Rightarrow> neat_connection" where
  "neat_create_connection innov i_n o_n w en =
     \<lparr>innovation = innov, in_node = i_n, out_node = o_n, weight = w, enabled = en\<rparr>"

definition neat_create_genome :: "int \<Rightarrow> neat_genome" where
  "neat_create_genome i =
     \<lparr>genome_id = i, nodes = [], connections = [],
      connection_capacity = NEAT_DEFAULT_ALLOC_SIZE, fitness = Num 0,
      adjusted_fitness = Num 0, global_rank = 0, species_id = - 1, evaluation_order = None\<rparr>"

text \<open>
  \<^verbatim>\<open>neat_add_node\<close> returns the new id right after incrementing \<^verbatim>\<open>node_count\<close>. The
  statements that free \<^verbatim>\<open>evaluation_order\<close> stand after that \<^verbatim>\<open>return\<close> and are never
  executed, so the model leaves \<open>evaluation_order\<close> as it is.
\<close>

definition neat_add_node ::
  "neat_genome \<Rightarrow> neat_node_type \<Rightarrow> neat_node_placement \<Rightarrow> 64 word
     \<Rightarrow> int \<times> neat_genome \<times> 64 word" where
  "neat_add_node genome ty pl seed =
     (let (new_node, seed1) = neat_create_node (int (length (nodes genome))) ty pl seed;
          new_id = int (length (nodes genome))
      in (new_id, genome\<lparr>nodes := nodes genome @ [new_node]\<rparr>, seed1))"

text \<open>The scan of \<^verbatim>\<open>neat_add_connection\<close> for a connection with the same endpoints.\<close>

primrec connection_exists :: "neat_connection list \<Rightarrow> int \<Rightarrow> int \<Rightarrow> bool" where
  "connection_exists [] i_n o_n = False"
| "connection_exists (c # cs) i_n o_n =
     (if in_node c = i_n \<and> out_node c = o_n then True else connection_exists cs i_n o_n)"

text \<open>
  When the array is full (\<^verbatim>\<open>connection_count >= connection_capacity\<close>) the capacity is
  multiplied by \<open>NEAT_GROWTH_FACTOR\<close> and the array reallocated before the new element
  is stored.
\<close>

definition neat_add_connection ::
  "neat_genome \<Rightarrow> int \<Rightarrow> int \<Rightarrow> double \<Rightarrow> bool \<Rightarrow> int \<times> neat_genome" where
  "neat_add_connection genome i_n o_n w en =
     (if connection_exists (connections genome) i_n o_n then (- 1, genome)
      else (0, genome\<lparr>connections :=
                        connections genome @ [neat_create_connection (- 1) i_n o_n w en],
                      connection_capacity :=
                        (if length (connections genome) \<ge> connection_capacity genome
                         then connection_capacity genome * NEAT_GROWTH_FACTOR
                         else connection_capacity genome),
                      evaluation_order := None\<rparr>))"

subsection \<open>Innovation table\<close>

definition neat_create_innovation_table :: neat_innovation_table where
  "neat_create_innovation_table =
     \<lparr>innovations = [], next_innovation = 1, next_node_id = 1, next_species_id = 1\<rparr>"

text \<open>The scan of \<^verbatim>\<open>neat_get_innovation\<close>: the number of the first record with this key.\<close>

primrec find_innovation :: "neat_innovation list \<Rightarrow> int \<Rightarrow> int \<Rightarrow> bool \<Rightarrow> int option" where
  "find_innovation [] i_n o_n is_new = None"
| "find_innovation (r # rs) i_n o_n is_new =
     (if innov_in_node r = i_n \<and> innov_out_node r = o_n \<and> is_new_node r = is_new
      then Some (innovation_number r)
      else find_innovation rs i_n o_n is_new)"

text \<open>
  A new record takes \<open>next_innovation\<close> as its \<open>innovation_id\<close> and then, for a
  connection, the incremented counter as its \<open>innovation_number\<close>, which is the value
  returned: the counter advances by two.
\<close>

definition neat_get_innovation ::
  "neat_innovation_table \<Rightarrow> int \<Rightarrow> int \<Rightarrow> bool \<Rightarrow> int \<Rightarrow> double
     \<Rightarrow> int \<times> neat_innovation_table" where
  "neat_get_innovation table i_n o_n is_new nid w =
     (case find_innovation (innovations table) i_n o_n is_new of
        Some k \<Rightarrow> (k, table)
      | None \<Rightarrow>
          (let iid = next_innovation table;
               table1 = table\<lparr>next_innovation := next_innovation table + 1\<rparr>;
               num = (if is_new then next_node_id table1 else next_innovation table1);
               table2 = (if is_new then table1\<lparr>next_node_id := next_node_id table1 + 1\<rparr>
                         else table1\<lparr>next_innovation := next_innovation table1 + 1\<rparr>);
               innov = \<lparr>innovation_id = iid, innov_in_node = i_n, innov_out_node = o_n,
                        innovation_number = num, is_new_node = is_new,
                        innov_node_id = (if is_new then nid else 0), innov_weight = w\<rparr>
           in (num, table2\<lparr>innovations := innovations table @ [innov]\<rparr>)))"

subsection \<open>Mutation\<close>

text \<open>A \<^verbatim>\<open>for\<close> loop that updates every element of an array and draws random numbers.\<close>

fun map_state :: "('a \<Rightarrow> 's \<Rightarrow> 'a \<times> 's) \<Rightarrow> 'a list \<Rightarrow> 's \<Rightarrow> 'a list \<times> 's" where
  "map_state f [] s = ([], s)"
| "map_state f (x # xs) s =
     (let (y, s1) = f x s; (ys, s2) = map_state f xs s1 in (y # ys, s2))"

definition mutate_weight_step :: "neat_connection \<Rightarrow> 64 word \<Rightarrow> neat_connection \<times> 64 word" where
  "mutate_weight_step conn seed =
     (let (u, seed1) = neat_random_uniform (Num 0) (Num 1) seed
      in if u < NEAT_WEIGHT_MUTATION_POWER then
           (let (d, seed2) = neat_random_normal (Num 0) NEAT_WEIGHT_RANDOM_STRENGTH seed1;
                conn1 = conn\<lparr>weight := weight conn + d\<rparr>;
                (u2, seed3) = neat_random_uniform (Num 0) (Num 1) seed2
            in if u2 < Num (1 / 10) then
                 (let (w, seed4) = neat_random_normal (Num 0) NEAT_WEIGHT_RANDOM_STRENGTH seed3
                  in (conn1\<lparr>weight := w\<rparr>, seed4))
               else (conn1, seed3))
         else (conn, seed1))"

definition mutate_bias_step :: "neat_node \<Rightarrow> 64 word \<Rightarrow> neat_node \<times> 64 word" where
  "mutate_bias_step node seed =
     (let (u, seed1) = neat_random_uniform (Num 0) (Num 1) seed
      in if u < NEAT_MUTATE_WEIGHT_RATE then
           (let (d, seed2) = neat_random_normal (Num 0) NEAT_WEIGHT_RANDOM_STRENGTH seed1
            in (node\<lparr>bias := bias node + d\<rparr>, seed2))
         else (node, seed1))"

definition neat_mutate_weights :: "neat_genome \<Rightarrow> 64 word \<Rightarrow> neat_genome \<times> 64 word" where
  "neat_mutate_weights genome seed =
     (let (cs, seed1) = map_state mutate_weight_step (connections genome) seed;
          (ns, seed2) = map_state mutate_bias_step (nodes genome) seed1
      in (genome\<lparr>nodes := ns, connections := cs\<rparr>, seed2))"

definition set_innovation :: "neat_connection list \<Rightarrow> nat \<Rightarrow> int \<Rightarrow> neat_connection list" where
  "set_innovation cs i k = cs[i := (cs ! i)\<lparr>innovation := k\<rparr>]"

text \<open>
  Every node is created with \<open>x_pos = 0\<close> and nothing in neat.c changes it, so in the
  non-recurrent build the test \<^verbatim>\<open>from_node->x_pos >= to_node->x_pos\<close> is what the model
  evaluates, as written.
\<close>

definition neat_mutate_add_connection ::
  "neat_genome \<Rightarrow> neat_innovation_table option \<Rightarrow> 64 word
     \<Rightarrow> neat_genome \<times> neat_innovation_table option \<times> 64 word" where
  "neat_mutate_add_connection genome table seed =
     (if length (nodes genome) < 2 then (genome, table, seed)
      else
        (let (from_node_idx, seed1) = neat_random_int 0 (int (length (nodes genome)) - 1) seed;
             (to_node_idx, seed2) = neat_random_int 0 (int (length (nodes genome)) - 1) seed1
         in if from_node_idx = to_node_idx then (genome, table, seed2)
            else
              (let from_node = nodes genome ! nat from_node_idx;
                   to_node = nodes genome ! nat to_node_idx
               in if \<not> NEAT_ALLOW_RECURRENT \<and> x_pos from_node \<ge> x_pos to_node
                  then (genome, table, seed2)
                  else if connection_exists (connections genome)
                            (node_id from_node) (node_id to_node)
                  then (genome, table, seed2)
                  else
                    (let (w, seed3) = neat_random_normal (Num 0) NEAT_WEIGHT_RANDOM_STRENGTH seed2;
                         (innov, table1) =
                           (case table of
                              None \<Rightarrow> (- 1, None)
                            | Some t \<Rightarrow>
                                (let (k, t1) = neat_get_innovation t (node_id from_node)
                                                 (node_id to_node) False (- 1) w
                                 in (k, Some t1)));
                         (r, genome1) = neat_add_connection genome (node_id from_node)
                                          (node_id to_node) w True;
                         n = length (connections genome1)
                     in (if innov \<noteq> - 1 \<and> n > 0
                         then genome1\<lparr>connections :=
                                set_innovation (connections genome1) (n - 1) innov\<rparr>
                         else genome1,
                         table1, seed3)))))"

text \<open>The loop of \<^verbatim>\<open>neat_mutate_add_node\<close> that draws an index until the connection
  there is enabled, at most 100 times.\<close>

function find_enabled_connection ::
  "neat_genome \<Rightarrow> nat \<Rightarrow> 64 word \<Rightarrow> int option \<times> 64 word" where
  "find_enabled_connection genome attempts seed =
     (if attempts < 100 then
        (if enabled (connections genome !
               nat (fst (neat_random_int 0 (int (length (connections genome)) - 1) seed)))
         then (Some (fst (neat_random_int 0 (int (length (connections genome)) - 1) seed)),
               snd (neat_random_int 0 (int (length (connections genome)) - 1) seed))
         else find_enabled_connection genome (attempts + 1)
                (snd (neat_random_int 0 (int (length (connections genome)) - 1) seed)))
      else (None, seed))"
  by pat_completeness auto
termination
  by (relation "measure (\<lambda>(genome, attempts, seed). 100 - attempts)") auto

declare find_enabled_connection.simps [simp del]

text \<open>
  \<^verbatim>\<open>conn_to_split\<close> points into the connection array. Its fields \<open>in_node\<close> and
  \<open>weight\<close> are read before the first call of \<^verbatim>\<open>neat_add_connection\<close>; its field
  \<open>out_node\<close> is read once more for the second call. When the first call appended to a
  full array it reallocated the array, the pointer is no longer valid and that read is
  \<open>Undefined\<close>.
\<close>

definition neat_mutate_add_node ::
  "neat_genome \<Rightarrow> neat_innovation_table option \<Rightarrow> 64 word
     \<Rightarrow> (neat_genome \<times> neat_innovation_table option \<times> 64 word) outcome" where
  "neat_mutate_add_node genome table seed =
     (if connections genome = [] then Returns (genome, table, seed)
      else
        (let (found, seed1) = find_enabled_connection genome 0 seed
         in case found of
              None \<Rightarrow> Returns (genome, table, seed1)
            | Some conn_index \<Rightarrow>
                (let conn = connections genome ! nat conn_index;
                     genome1 = genome\<lparr>connections :=
                                 (connections genome)[nat conn_index := conn\<lparr>enabled := False\<rparr>]\<rparr>;
                     (new_node_id, genome2, seed2) =
                        neat_add_node genome1 NEAT_NODE_HIDDEN NEAT_PLACEMENT_HIDDEN seed1;
                     weight1 = Num 1;
                     weight2 = weight conn;
                     (innovation1, innovation2, table1) =
                        (case table of
                           None \<Rightarrow> (- 1, - 1, None)
                         | Some t \<Rightarrow>
                             (let (k1, t1) = neat_get_innovation t (in_node conn) new_node_id
                                               False (- 1) weight1;
                                  (k2, t2) = neat_get_innovation t1 new_node_id (out_node conn)
                                               False (- 1) weight2
                              in (k1, k2, Some t2)));
                     reallocated =
                        (\<not> connection_exists (connections genome2) (in_node conn) new_node_id
                         \<and> length (connections genome2) \<ge> connection_capacity genome2);
                     (r1, genome3) = neat_add_connection genome2 (in_node conn) new_node_id
                                       weight1 True
                 in if reallocated then Undefined
                    else
                      (let (r2, genome4) = neat_add_connection genome3 new_node_id
                                             (out_node conn) weight2 True;
                           n = length (connections genome4)
                       in Returns
                            (if innovation1 \<noteq> - 1 \<and> n > 1
                             then genome4\<lparr>connections :=
                                    set_innovation (set_innovation (connections genome4)
                                      (n - 2) innovation1) (n - 1) innovation2\<rparr>
                             else genome4,
                             table1, seed2)))))"

text \<open>The first loop of \<^verbatim>\<open>neat_mutate_toggle_connection\<close>: \<open>i\<close> is the index of the head
  of the list, \<open>sel\<close> the index \<^verbatim>\<open>conn\<close> points to, if any.\<close>

fun toggle_scan ::
  "neat_connection list \<Rightarrow> nat \<Rightarrow> int \<Rightarrow> nat option \<Rightarrow> 64 word
     \<Rightarrow> int \<times> nat option \<times> 64 word" where
  "toggle_scan [] i enabled_count sel seed = (enabled_count, sel, seed)"
| "toggle_scan (c # cs) i enabled_count sel seed =
     (if enabled c then
        toggle_scan cs (i + 1) (enabled_count + 1)
          (if fst (neat_random_uniform (Num 0) (Num 1) seed) < Num 1 / double_of_int (enabled_count + 1)
           then Some i else sel)
          (snd (neat_random_uniform (Num 0) (Num 1) seed))
      else toggle_scan cs (i + 1) enabled_count sel seed)"

fun enable_disabled :: "neat_connection list \<Rightarrow> int \<Rightarrow> int \<Rightarrow> neat_connection list" where
  "enable_disabled [] found target = []"
| "enable_disabled (c # cs) found target =
     (if \<not> enabled c then
        (if found = target then c\<lparr>enabled := True\<rparr> # cs
         else c # enable_disabled cs (found + 1) target)
      else c # enable_disabled cs found target)"

definition neat_mutate_toggle_connection ::
  "neat_genome \<Rightarrow> 64 word \<Rightarrow> neat_genome \<times> 64 word" where
  "neat_mutate_toggle_connection genome seed =
     (if connections genome = [] then (genome, seed)
      else
        (let (enabled_count, sel, seed1) = toggle_scan (connections genome) 0 0 None seed
         in case sel of
              None \<Rightarrow>
                (let disabled_count = int (length (connections genome)) - enabled_count
                 in if disabled_count > 0 then
                      (let (target, seed2) = neat_random_int 0 (disabled_count - 1) seed1
                       in (genome\<lparr>connections :=
                             enable_disabled (connections genome) 0 target\<rparr>, seed2))
                    else (genome, seed1))
            | Some i \<Rightarrow>
                (genome\<lparr>connections :=
                   (connections genome)[i := (connections genome ! i)
                      \<lparr>enabled := \<not> enabled (connections genome ! i)\<rparr>]\<rparr>, seed1)))"

definition neat_mutate_activation :: "neat_genome \<Rightarrow> 64 word \<Rightarrow> neat_genome \<times> 64 word" where
  "neat_mutate_activation genome seed =
     (if nodes genome = [] then (genome, seed)
      else
        (let (node_idx, seed1) = neat_random_int 0 (int (length (nodes genome)) - 1) seed;
             node = nodes genome ! nat node_idx
         in if node_type node = NEAT_NODE_INPUT \<or> node_type node = NEAT_NODE_BIAS
            then (genome, seed1)
            else
              (let (k, seed2) = neat_random_int 0 (NEAT_MAX_ACTIVATION_FUNCS - 1) seed1
               in (genome\<lparr>nodes := (nodes genome)[nat node_idx :=
                             node\<lparr>activation_type := activation_of_int k\<rparr>]\<rparr>, seed2))))"

text \<open>The five mutations of \<^verbatim>\<open>neat_mutate\<close>, in their order; only the node split can be
  \<open>Undefined\<close>.\<close>

definition neat_mutate ::
  "neat_genome \<Rightarrow> neat_innovation_table option \<Rightarrow> 64 word
     \<Rightarrow> (neat_genome \<times> neat_innovation_table option \<times> 64 word) outcome" where
  "neat_mutate genome table seed =
     (let (u1, seed1) = neat_random_uniform (Num 0) (Num 1) seed;
          (genome1, seed2) = (if u1 < NEAT_MUTATE_WEIGHT_RATE
                              then neat_mutate_weights genome seed1 else (genome, seed1));
          (u2, seed3) = neat_random_uniform (Num 0) (Num 1) seed2
      in case (if u2 < NEAT_MUTATE_NODE_RATE
               then neat_mutate_add_node genome1 table seed3
               else Returns (genome1, table, seed3)) of
           Undefined \<Rightarrow> Undefined
         | Returns (genome2, table2, seed4) \<Rightarrow>
             (let (u3, seed5) = neat_random_uniform (Num 0) (Num 1) seed4;
                  (genome3, table3, seed6) =
                     (if u3 < NEAT_MUTATE_LINK_RATE
                      then neat_mutate_add_connection genome2 table2 seed5
                      else (genome2, table2, seed5));
                  (u4, seed7) = neat_random_uniform (Num 0) (Num 1) seed6;
                  (genome4, seed8) = (if u4 < NEAT_MUTATE_TOGGLE_LINK_RATE
                                      then neat_mutate_toggle_connection genome3 seed7
                                      else (genome3, seed7));
                  (u5, seed9) = neat_random_uniform (Num 0) (Num 1) seed8;
                  (genome5, seed10) = (if u5 < NEAT_MUTATE_ACTIVATION_RATE
                                       then neat_mutate_activation genome4 seed9
                                       else (genome4, seed9))
              in Returns (genome5, table3, seed10)))"

subsection \<open>Crossover\<close>

fun copy_nodes :: "neat_node list \<Rightarrow> neat_genome \<Rightarrow> 64 word \<Rightarrow> neat_genome \<times> 64 word" where
  "copy_nodes [] child seed = (child, seed)"
| "copy_nodes (node # ns) child seed =
     (let (new_node_id, child1, seed1) =
            neat_add_node child (node_type node) (placement node) seed;
          child2 = child1\<lparr>nodes := (nodes child1)[nat new_node_id :=
                      (nodes child1 ! nat new_node_id)
                        \<lparr>activation_type := activation_type node, bias := bias node\<rparr>]\<rparr>
      in copy_nodes ns child2 seed1)"

primrec find_matching :: "neat_connection list \<Rightarrow> int \<Rightarrow> neat_connection option" where
  "find_matching [] k = None"
| "find_matching (c # cs) k = (if innovation c = k then Some c else find_matching cs k)"

text \<open>The loop over the connections of the fitter parent. The random number is drawn
  only when a matching connection was found (\<^verbatim>\<open>&&\<close> evaluates its right side last).\<close>

fun inherit_connections ::
  "neat_connection list \<Rightarrow> neat_connection list \<Rightarrow> neat_genome \<Rightarrow> 64 word
     \<Rightarrow> neat_genome \<times> 64 word" where
  "inherit_connections [] other_conns child seed = (child, seed)"
| "inherit_connections (conn # cs) other_conns child seed =
     (let (inherited_conn, seed1) =
            (case find_matching other_conns (innovation conn) of
               None \<Rightarrow> (conn, seed)
             | Some matching_conn \<Rightarrow>
                 (let (u, s) = neat_random_uniform (Num 0) (Num 1) seed
                  in (if u < Num (1 / 2) then matching_conn else conn, s)));
          (r, child1) = neat_add_connection child (in_node inherited_conn)
                          (out_node inherited_conn) (weight inherited_conn)
                          (enabled inherited_conn)
      in inherit_connections cs other_conns child1 seed1)"

text \<open>The loop over the connections of the other parent.\<close>

fun remaining_connections ::
  "neat_connection list \<Rightarrow> neat_connection list \<Rightarrow> neat_genome \<Rightarrow> 64 word
     \<Rightarrow> neat_genome \<times> 64 word" where
  "remaining_connections [] fitter_conns child seed = (child, seed)"
| "remaining_connections (conn # cs) fitter_conns child seed =
     (case find_matching fitter_conns (innovation conn) of
        Some c \<Rightarrow> remaining_connections cs fitter_conns child seed
      | None \<Rightarrow>
          (let (u, seed1) = neat_random_uniform (Num 0) (Num 1) seed
           in if u < Num (1 / 2) then
                remaining_connections cs fitter_conns
                  (snd (neat_add_connection child (in_node conn) (out_node conn)
                          (weight conn) (enabled conn))) seed1
              else remaining_connections cs fitter_conns child seed1))"

definition neat_crossover ::
  "neat_genome \<Rightarrow> neat_genome \<Rightarrow> 64 word \<Rightarrow> neat_genome \<times> 64 word" where
  "neat_crossover parent1 parent2 seed =
     (let fitter = (if fitness parent1 \<ge> fitness parent2 then parent1 else parent2);
          other = (if fitness parent1 \<ge> fitness parent2 then parent2 else parent1);
          child = neat_create_genome (- 1);
          (child1, seed1) = copy_nodes (nodes fitter) child seed;
          (child2, seed2) = inherit_connections (connections fitter) (connections other)
                              child1 seed1
      in remaining_connections (connections other) (connections fitter) child2 seed2)"

subsection \<open>Compatibility distance\<close>

text \<open>
  The merge loop of \<^verbatim>\<open>neat_compatibility_distance\<close> on the two connection arrays from
  positions \<open>i\<close> and \<open>j\<close> on; it returns \<open>matching\<close>, \<open>disjoint\<close>, the number of
  connections left over in both arrays (\<open>excess\<close>) and \<open>weight_diff_sum\<close>.
\<close>

fun compare_connections ::
  "neat_connection list \<Rightarrow> neat_connection list \<Rightarrow> nat \<Rightarrow> nat \<Rightarrow> double
     \<Rightarrow> nat \<times> nat \<times> nat \<times> double" where
  "compare_connections (conn1 # cs1) (conn2 # cs2) matching disjoint weight_diff_sum =
     (if innovation conn1 = innovation conn2 then
        compare_connections cs1 cs2 (matching + 1) disjoint
          (weight_diff_sum + \<bar>weight conn1 - weight conn2\<bar>)
      else if innovation conn1 < innovation conn2 then
        compare_connections cs1 (conn2 # cs2) matching (disjoint + 1) weight_diff_sum
      else
        compare_connections (conn1 # cs1) cs2 matching (disjoint + 1) weight_diff_sum)"
| "compare_connections [] cs2 matching disjoint weight_diff_sum =
     (matching, disjoint, length cs2, weight_diff_sum)"
| "compare_connections cs1 [] matching disjoint weight_diff_sum =
     (matching, disjoint, length cs1, weight_diff_sum)"

definition neat_compatibility_distance :: "neat_genome \<Rightarrow> neat_genome \<Rightarrow> double" where
  "neat_compatibility_distance genome1 genome2 =
     (let (matching, disjoint, excess, weight_diff_sum) =
            compare_connections (connections genome1) (connections genome2) 0 0 (Num 0);
          n = double_of_nat (max (length (connections genome1))
                                 (length (connections genome2)));
          N = (if n < Num 20 then Num 1 else n);
          distance = (NEAT_EXCESS_COEFF * double_of_nat excess) / N
                     + (NEAT_DISJOINT_COEFF * double_of_nat disjoint) / N
      in if matching > 0
         then distance + (NEAT_WEIGHT_COEFF * weight_diff_sum) / double_of_nat matching
         else distance)"

subsection \<open>Network evaluation\<close>

text \<open>
  A read outside an array has the outcome \<open>Undefined\<close>; \<^verbatim>\<open>neat_update_network\<close> and
  \<^verbatim>\<open>neat_evaluate\<close> return \<^verbatim>\<open>void\<close> and have no error value.
\<close>

text \<open>The loop that sums the weighted inputs of the node with id \<open>nid\<close>.\<close>

fun sum_inputs ::
  "neat_node list \<Rightarrow> neat_connection list \<Rightarrow> int \<Rightarrow> double \<Rightarrow> double outcome" where
  "sum_inputs ns [] nid acc = Returns acc"
| "sum_inputs ns (conn # cs) nid acc =
     (if out_node conn = nid \<and> enabled conn then
        (if 0 \<le> in_node conn \<and> in_node conn < int (length ns) then
           (if active (ns ! nat (in_node conn))
            then sum_inputs ns cs nid
                   (acc + node_value (ns ! nat (in_node conn)) * weight conn)
            else sum_inputs ns cs nid acc)
         else Undefined)
      else sum_inputs ns cs nid acc)"

text \<open>The loop over \<open>evaluation_order\<close>.\<close>

fun evaluate_nodes ::
  "int list \<Rightarrow> neat_connection list \<Rightarrow> neat_node list \<Rightarrow> neat_node list outcome" where
  "evaluate_nodes [] cs ns = Returns ns"
| "evaluate_nodes (node_idx # order) cs ns =
     (if 0 \<le> node_idx \<and> node_idx < int (length ns) then
        (if node_type (ns ! nat node_idx) = NEAT_NODE_INPUT then evaluate_nodes order cs ns
         else
           (case sum_inputs ns cs (node_id (ns ! nat node_idx)) (Num 0) of
              Undefined \<Rightarrow> Undefined
            | Returns acc \<Rightarrow>
                evaluate_nodes order cs
                  (ns[nat node_idx := (ns ! nat node_idx)
                       \<lparr>node_value :=
                          neat_activation (activation_type (ns ! nat node_idx))
                            (acc + bias (ns ! nat node_idx))\<rparr>])))
      else Undefined)"

definition reset_node :: "neat_node \<Rightarrow> neat_node" where
  "reset_node node =
     (if node_type node \<noteq> NEAT_NODE_INPUT then node\<lparr>node_value := Num 0\<rparr> else node)"

definition neat_update_network :: "neat_genome \<Rightarrow> neat_genome outcome" where
  "neat_update_network genome =
     (let order = (case evaluation_order genome of
                     None \<Rightarrow> map int [0 ..< length (nodes genome)]
                   | Some ord \<Rightarrow> ord)
      in case evaluate_nodes order (connections genome) (map reset_node (nodes genome)) of
           Undefined \<Rightarrow> Undefined
         | Returns ns \<Rightarrow> Returns (genome\<lparr>nodes := ns, evaluation_order := Some order\<rparr>))"

text \<open>
  The first loop of \<^verbatim>\<open>neat_evaluate\<close>. \<open>inputs\<close> is the array the caller passes, as long
  as the caller made it; \<open>input_count\<close> is the number of values read so far.
\<close>

fun set_inputs :: "neat_node list \<Rightarrow> double list \<Rightarrow> nat \<Rightarrow> neat_node list outcome" where
  "set_inputs [] inputs input_count = Returns []"
| "set_inputs (node # ns) inputs input_count =
     (if node_type node = NEAT_NODE_INPUT then
        (if input_count < NEAT_MAX_INPUTS then
           (if input_count < length inputs then
              (case set_inputs ns inputs (input_count + 1) of
                 Undefined \<Rightarrow> Undefined
               | Returns r \<Rightarrow> Returns (node\<lparr>node_value := inputs ! input_count\<rparr> # r))
            else Undefined)
         else
           (case set_inputs ns inputs input_count of
              Undefined \<Rightarrow> Undefined
            | Returns r \<Rightarrow> Returns (node\<lparr>node_value := Num 0\<rparr> # r)))
      else if node_type node = NEAT_NODE_BIAS then
        (case set_inputs ns inputs input_count of
           Undefined \<Rightarrow> Undefined
         | Returns r \<Rightarrow> Returns (node\<lparr>node_value := Num 1\<rparr> # r))
      else
        (case set_inputs ns inputs input_count of
           Undefined \<Rightarrow> Undefined
         | Returns r \<Rightarrow> Returns (node\<lparr>node_value := Num 0\<rparr> # r)))"

text \<open>The values written to \<^verbatim>\<open>outputs\<close>, in order; the caller's array must hold them.\<close>

definition collect_outputs :: "neat_node list \<Rightarrow> double list" where
  "collect_outputs ns =
     take NEAT_MAX_OUTPUTS
       (map node_value (filter (\<lambda>node. node_type node = NEAT_NODE_OUTPUT) ns))"

definition neat_evaluate ::
  "neat_genome \<Rightarrow> double list \<Rightarrow> (neat_genome \<times> double list) outcome" where
  "neat_evaluate genome inputs =
     (case set_inputs (nodes genome) inputs 0 of
        Undefined \<Rightarrow> Undefined
      | Returns ns \<Rightarrow>
          (case neat_update_network (genome\<lparr>nodes := ns\<rparr>) of
             Undefined \<Rightarrow> Undefined
           | Returns genome1 \<Rightarrow> Returns (genome1, collect_outputs (nodes genome1))))"

subsection \<open>Species\<close>

text \<open>
  \<open>members\<close> and \<open>representative\<close> are pointers to genomes that the population owns;
  they are the indices of these genomes in \<open>genomes\<close>. The field \<^verbatim>\<open>champion\<close> is never
  written or read in neat.c and is left out. \<open>max_fitness_achieved\<close> is an \<^verbatim>\<open>int\<close> in
  neat.h, so the assignment of a fitness to it converts.
\<close>

record neat_species =
  sp_id :: int
  members :: "nat list"
  best_fitness :: double
  average_fitness :: double
  staleness :: int
  age :: int
  representative :: "nat option"

record neat_population =
  genomes :: "neat_genome list"
  species :: "neat_species list"
  innovation_table :: neat_innovation_table
  population_size :: nat
  generation :: int
  max_fitness_achieved :: int
  evaluate_genome :: "(neat_genome \<Rightarrow> double \<times> neat_genome) option"

definition neat_create_species :: "int \<Rightarrow> neat_species" where
  "neat_create_species i =
     \<lparr>sp_id = i, members = [], best_fitness = Num (- 10000000000), average_fitness = Num 0,
      staleness = 0, age = 0, representative = None\<rparr>"

text \<open>The sum of the fitness values of the members, added up in order from 0.0.\<close>

definition sum_fitness :: "neat_genome list \<Rightarrow> nat list \<Rightarrow> double" where
  "sum_fitness gs ms = fold (\<lambda>m acc. acc + fitness (gs ! m)) ms (Num 0)"

definition neat_add_genome_to_species ::
  "neat_genome list \<Rightarrow> neat_species \<Rightarrow> nat \<Rightarrow> neat_species" where
  "neat_add_genome_to_species gs sp gi =
     (let sp1 = sp\<lparr>members := members sp @ [gi]\<rparr>;
          sp2 = (if fitness (gs ! gi) > best_fitness sp1
                 then sp1\<lparr>best_fitness := fitness (gs ! gi), staleness := 0\<rparr>
                 else sp1)
      in sp2\<lparr>average_fitness :=
               sum_fitness gs (members sp2) / double_of_nat (length (members sp2))\<rparr>)"

text \<open>\<^verbatim>\<open>neat_adjust_fitness\<close> writes through the member pointers into the genomes.\<close>

definition neat_adjust_fitness :: "neat_genome list \<Rightarrow> neat_species \<Rightarrow> neat_genome list" where
  "neat_adjust_fitness gs sp =
     fold (\<lambda>m gs1. gs1[m := (gs1 ! m)\<lparr>adjusted_fitness :=
                                 fitness (gs1 ! m) / double_of_nat (length (members sp))\<rparr>])
       (members sp) gs"

text \<open>
  Modelled from the spec: \<^verbatim>\<open>neat_clone_genome\<close> is declared in neat.h and called by
  \<^verbatim>\<open>neat_reproduce\<close>, but no source file defines it. The specification describes it as a
  deep copy of node list, connection list and scalar fields, whose evaluation order may
  be recomputed lazily. The copy is taken to have the capacity of the original.
\<close>

definition neat_clone_genome :: "neat_genome \<Rightarrow> neat_genome" where
  "neat_clone_genome genome = genome\<lparr>evaluation_order := None\<rparr>"

subsection \<open>Speciation\<close>

text \<open>The loop over the existing species for the genome with index \<open>gi\<close>; \<open>None\<close> when
  no species took it.\<close>

fun place_genome ::
  "neat_genome list \<Rightarrow> nat \<Rightarrow> neat_species list \<Rightarrow> neat_species list option" where
  "place_genome gs gi [] = None"
| "place_genome gs gi (sp # sps) =
     (if members sp \<noteq> [] \<and>
         (case representative sp of
            None \<Rightarrow> False
          | Some rep \<Rightarrow>
              neat_compatibility_distance (gs ! gi) (gs ! rep) < NEAT_COMPATIBILITY_THRESHOLD)
      then Some (neat_add_genome_to_species gs sp gi # sps)
      else (case place_genome gs gi sps of
              None \<Rightarrow> None
            | Some sps1 \<Rightarrow> Some (sp # sps1)))"

definition speciate_step ::
  "neat_genome list \<Rightarrow> nat \<Rightarrow> neat_species list \<times> neat_innovation_table
     \<Rightarrow> neat_species list \<times> neat_innovation_table" where
  "speciate_step gs gi st =
     (case place_genome gs gi (fst st) of
        Some sps1 \<Rightarrow> (sps1, snd st)
      | None \<Rightarrow>
          (fst st @ [neat_add_genome_to_species gs
                      ((neat_create_species (next_species_id (snd st)))
                         \<lparr>representative := Some gi\<rparr>) gi],
           (snd st)\<lparr>next_species_id := next_species_id (snd st) + 1\<rparr>))"

text \<open>The loop that deletes the species without members and shifts the others down.\<close>

fun remove_empty_species :: "neat_species list \<Rightarrow> neat_species list" where
  "remove_empty_species [] = []"
| "remove_empty_species (sp # sps) =
     (if members sp = [] then remove_empty_species sps else sp # remove_empty_species sps)"

text \<open>\<^verbatim>\<open>neat_speciate\<close> frees every species of the population and builds the list anew.\<close>

definition neat_speciate :: "neat_population \<Rightarrow> neat_population" where
  "neat_speciate pop =
     (if genomes pop = [] then pop\<lparr>species := []\<rparr>
      else
        (let table = innovation_table pop;
             first_species = neat_add_genome_to_species (genomes pop)
                               ((neat_create_species (next_species_id table))
                                  \<lparr>representative := Some 0\<rparr>) 0;
             table1 = table\<lparr>next_species_id := next_species_id table + 1\<rparr>;
             st = fold (speciate_step (genomes pop)) [1 ..< length (genomes pop)]
                    ([first_species], table1)
         in pop\<lparr>species := remove_empty_species (fst st), innovation_table := snd st\<rparr>))"

subsection \<open>Stale and weak species\<close>

text \<open>
  The loop of \<^verbatim>\<open>neat_remove_stale_species\<close> from index \<open>i\<close> on. The index advances only
  in the branch where the species did not improve on \<open>max_fitness_achieved\<close>; the loop
  need not end, so its result is an option, \<open>None\<close> for a loop that runs forever.
\<close>

partial_function (option) stale_species_loop ::
  "nat \<Rightarrow> neat_species list \<Rightarrow> int \<Rightarrow> (neat_species list \<times> int) outcome option" where
  "stale_species_loop i sps max_fit =
     (if i < length sps then
        (if best_fitness (sps ! i) > double_of_int max_fit
         then (case c_double_to_int (best_fitness (sps ! i)) of
                 Undefined \<Rightarrow> Some Undefined
               | Returns m \<Rightarrow>
                   stale_species_loop i (sps[i := (sps ! i)\<lparr>staleness := 0\<rparr>]) m)
         else stale_species_loop (i + 1)
                (sps[i := (sps ! i)\<lparr>staleness := staleness (sps ! i) + 1\<rparr>]) max_fit)
      else Some (Returns (sps, max_fit)))"

definition neat_remove_stale_species :: "neat_population \<Rightarrow> neat_population outcome option" where
  "neat_remove_stale_species pop =
     (case stale_species_loop 0 (species pop) (max_fitness_achieved pop) of
        None \<Rightarrow> None
      | Some Undefined \<Rightarrow> Some Undefined
      | Some (Returns (sps, max_fit)) \<Rightarrow>
          Some (Returns (pop\<lparr>species := sps, max_fitness_achieved := max_fit\<rparr>)))"

text \<open>
  The second loop of \<^verbatim>\<open>neat_remove_weak_species\<close>. The offspring count is the product
  of the fitness ratio and the population size converted to \<^verbatim>\<open>int\<close>. When
  \<open>total_avg_fitness\<close> is 0 the ratio is 0.0 / 0.0, a NaN, whose conversion is
  \<open>Undefined\<close>.
\<close>

fun remove_weak :: "double \<Rightarrow> nat \<Rightarrow> neat_species list \<Rightarrow> neat_species list outcome" where
  "remove_weak total_avg_fitness psize [] = Returns []"
| "remove_weak total_avg_fitness psize (sp # sps) =
     (case c_double_to_int ((\<bar>average_fitness sp\<bar> / total_avg_fitness) * double_of_nat psize) of
        Undefined \<Rightarrow> Undefined
      | Returns offspring_count \<Rightarrow>
          (case remove_weak total_avg_fitness psize sps of
             Undefined \<Rightarrow> Undefined
           | Returns rest \<Rightarrow>
               Returns (if offspring_count < 1 then rest else sp # rest)))"

definition total_average_fitness :: "neat_species list \<Rightarrow> double" where
  "total_average_fitness sps = fold (\<lambda>sp acc. acc + \<bar>average_fitness sp\<bar>) sps (Num 0)"

definition neat_remove_weak_species :: "neat_population \<Rightarrow> neat_population outcome" where
  "neat_remove_weak_species pop =
     (case remove_weak (total_average_fitness (species pop))
             (population_size pop) (species pop) of
        Undefined \<Rightarrow> Undefined
      | Returns sps \<Rightarrow> Returns (pop\<lparr>species := sps\<rparr>))"

subsection \<open>Reproduction\<close>

text \<open>
  The two nested loops that order the members of a species by descending fitness. For a
  species without members the C bound \<^verbatim>\<open>member_count - 1\<close> wraps around and the outer loop
  runs without ever entering the inner one; it changes nothing, as here.
\<close>

definition sort_members :: "neat_genome list \<Rightarrow> nat list \<Rightarrow> nat list" where
  "sort_members gs ms =
     fold (\<lambda>j ms1.
             fold (\<lambda>k ms2. if fitness (gs ! (ms2 ! j)) < fitness (gs ! (ms2 ! k))
                            then ms2[j := ms2 ! k, k := ms2 ! j] else ms2)
               [j + 1 ..< length ms] ms1)
       [0 ..< length ms - 1] ms"

text \<open>The loop that carries over one elite per species, while there is room.\<close>

fun carry_over_elites ::
  "neat_genome list \<Rightarrow> nat \<Rightarrow> neat_species list \<Rightarrow> neat_genome list
     \<Rightarrow> neat_species list \<times> neat_genome list" where
  "carry_over_elites gs psize [] new_genomes = ([], new_genomes)"
| "carry_over_elites gs psize (sp # sps) new_genomes =
     (if length new_genomes < psize then
        (let ms = sort_members gs (members sp);
             rest = carry_over_elites gs psize sps
                      (if ms \<noteq> [] then new_genomes @ [neat_clone_genome (gs ! hd ms)]
                       else new_genomes)
         in (sp\<lparr>members := ms\<rparr> # fst rest, snd rest))
      else (sp # sps, new_genomes))"

text \<open>The loop that selects a species: the first one at which \<open>r\<close> has dropped to 0 or
  below, or the last one.\<close>

fun select_species :: "neat_species list \<Rightarrow> double \<Rightarrow> neat_species option" where
  "select_species [] r = None"
| "select_species (sp # sps) r =
     (if r - \<bar>average_fitness sp\<bar> \<le> Num 0 \<or> sps = [] then Some sp
      else select_species sps (r - \<bar>average_fitness sp\<bar>))"

text \<open>One round of the tournament for the first parent, and one for the second.\<close>

definition tournament_step ::
  "neat_genome list \<Rightarrow> nat list \<Rightarrow> nat option \<Rightarrow> 64 word \<Rightarrow> nat option \<times> 64 word" where
  "tournament_step gs ms parent1 seed =
     (let (idx, seed1) = neat_random_int 0 (int (length ms) - 1) seed
      in (case parent1 of
            None \<Rightarrow> Some (ms ! nat idx)
          | Some p \<Rightarrow> (if fitness (gs ! (ms ! nat idx)) > fitness (gs ! p)
                       then Some (ms ! nat idx) else Some p),
          seed1))"

definition tournament_step2 ::
  "neat_genome list \<Rightarrow> nat list \<Rightarrow> nat option \<Rightarrow> nat option \<Rightarrow> 64 word
     \<Rightarrow> nat option \<times> 64 word" where
  "tournament_step2 gs ms parent1 parent2 seed =
     (let (idx, seed1) = neat_random_int 0 (int (length ms) - 1) seed
      in (if (case parent2 of
                None \<Rightarrow> True
              | Some p \<Rightarrow> fitness (gs ! (ms ! nat idx)) > fitness (gs ! p))
             \<and> Some (ms ! nat idx) \<noteq> parent1
          then Some (ms ! nat idx) else parent2,
          seed1))"

text \<open>The two parents that the tournaments select in a species with members: the index
  of the first, the index of the second if there is one, and the seed afterwards.\<close>

definition select_parents ::
  "neat_genome list \<Rightarrow> nat list \<Rightarrow> 64 word \<Rightarrow> nat \<times> nat option \<times> 64 word" where
  "select_parents gs ms seed =
     (let (p1a, seed1) = tournament_step gs ms None seed;
          (p1b, seed2) = tournament_step gs ms p1a seed1;
          (p1c, seed3) = tournament_step gs ms p1b seed2;
          parent1 = (case p1c of None \<Rightarrow> hd ms | Some p \<Rightarrow> p);
          (u, seed4) = neat_random_uniform (Num 0) (Num 1) seed3;
          (parent2, seed7) =
             (if u < Num (3 / 10) then
                (let (p2a, seed5) = tournament_step2 gs ms (Some parent1) None seed4;
                     (p2b, seed6) = tournament_step2 gs ms (Some parent1) p2a seed5
                 in tournament_step2 gs ms (Some parent1) p2b seed6)
              else (None, seed4))
      in (parent1, parent2, seed7))"

text \<open>The body of the offspring loop once a species with members is selected. The
  innovation table of a population is never null.\<close>

definition make_offspring ::
  "neat_genome list \<Rightarrow> neat_species \<Rightarrow> neat_innovation_table \<Rightarrow> 64 word
     \<Rightarrow> (neat_genome \<times> neat_innovation_table \<times> 64 word) outcome" where
  "make_offspring gs sp table seed =
     (let (parent1, parent2, seed1) = select_parents gs (members sp) seed;
          (offspring, seed2) =
             (case parent2 of
                Some p2 \<Rightarrow> neat_crossover (gs ! parent1) (gs ! p2) seed1
              | None \<Rightarrow> (neat_clone_genome (gs ! parent1), seed1))
      in case neat_mutate offspring (Some table) seed2 of
           Undefined \<Rightarrow> Undefined
         | Returns (mutated, table1, seed3) \<Rightarrow>
             Returns (mutated, (case table1 of None \<Rightarrow> table | Some t \<Rightarrow> t), seed3))"

text \<open>
  The loop \<^verbatim>\<open>while (new_genome_count < pop->population_size)\<close>. When the selected species
  has no member the body ends with \<^verbatim>\<open>continue\<close>, having drawn one random number and
  added nothing; nothing bounds the number of such rounds.
\<close>

partial_function (option) fill_offspring ::
  "neat_genome list \<Rightarrow> neat_species list \<Rightarrow> double \<Rightarrow> nat \<Rightarrow> neat_genome list
     \<Rightarrow> neat_innovation_table \<Rightarrow> 64 word
     \<Rightarrow> (neat_genome list \<times> neat_innovation_table \<times> 64 word) outcome option" where
  "fill_offspring gs sps total_avg_fitness psize new_genomes table seed =
     (if length new_genomes < psize then
        (case select_species sps (fst (neat_random_uniform (Num 0) total_avg_fitness seed)) of
           None \<Rightarrow>
             fill_offspring gs sps total_avg_fitness psize new_genomes table
               (snd (neat_random_uniform (Num 0) total_avg_fitness seed))
         | Some sp \<Rightarrow>
             (if members sp = [] then
                fill_offspring gs sps total_avg_fitness psize new_genomes table
                  (snd (neat_random_uniform (Num 0) total_avg_fitness seed))
              else
                (case make_offspring gs sp table
                        (snd (neat_random_uniform (Num 0) total_avg_fitness seed)) of
                   Undefined \<Rightarrow> Some Undefined
                 | Returns r \<Rightarrow>
                     fill_offspring gs sps total_avg_fitness psize
                       (new_genomes @ [fst r]) (fst (snd r)) (snd (snd r)))))
      else Some (Returns (new_genomes, table, seed)))"

definition neat_reproduce ::
  "neat_population \<Rightarrow> 64 word \<Rightarrow> (neat_population \<times> 64 word) outcome option" where
  "neat_reproduce pop seed =
     (let total_avg_fitness = total_average_fitness (species pop);
          elites = carry_over_elites (genomes pop) (population_size pop) (species pop) []
      in case fill_offspring (genomes pop) (fst elites) total_avg_fitness
                (population_size pop) (snd elites) (innovation_table pop) seed of
           None \<Rightarrow> None
         | Some Undefined \<Rightarrow> Some Undefined
         | Some (Returns (new_genomes, table, seed1)) \<Rightarrow>
             Some (Returns (pop\<lparr>genomes := new_genomes, species := fst elites,
                               innovation_table := table, generation := generation pop + 1\<rparr>,
                            seed1)))"

subsection \<open>One generation\<close>

text \<open>
  The fitness callback receives a pointer to the genome; it returns the fitness and may
  have changed the genome (an activation writes node values). It does not draw from the
  random number generator of neat.c.
\<close>

fun evaluate_all ::
  "(neat_genome \<Rightarrow> double \<times> neat_genome) \<Rightarrow> neat_genome list \<Rightarrow> int
     \<Rightarrow> (neat_genome list \<times> int) outcome" where
  "evaluate_all f [] max_fit = Returns ([], max_fit)"
| "evaluate_all f (g # gs) max_fit =
     (case (if fst (f g) > double_of_int max_fit then c_double_to_int (fst (f g))
            else Returns max_fit) of
        Undefined \<Rightarrow> Undefined
      | Returns m \<Rightarrow>
          (case evaluate_all f gs m of
             Undefined \<Rightarrow> Undefined
           | Returns rest \<Rightarrow>
               Returns ((snd (f g))\<lparr>fitness := fst (f g)\<rparr> # fst rest, snd rest)))"

text \<open>The phases of \<^verbatim>\<open>neat_evolve\<close> before the stale-species pass: evaluation,
  speciation and fitness sharing.\<close>

definition evaluate_and_speciate :: "neat_population \<Rightarrow> neat_population outcome" where
  "evaluate_and_speciate pop =
     (case (case evaluate_genome pop of
              None \<Rightarrow> Returns pop
            | Some f \<Rightarrow>
                (case evaluate_all f (genomes pop) (max_fitness_achieved pop) of
                   Undefined \<Rightarrow> Undefined
                 | Returns ev \<Rightarrow>
                     Returns (pop\<lparr>genomes := fst ev, max_fitness_achieved := snd ev\<rparr>))) of
        Undefined \<Rightarrow> Undefined
      | Returns pop1 \<Rightarrow>
          (let pop2 = neat_speciate pop1
           in Returns (pop2\<lparr>genomes := fold (\<lambda>sp gs. neat_adjust_fitness gs sp)
                                            (species pop2) (genomes pop2)\<rparr>)))"

definition neat_evolve ::
  "neat_population \<Rightarrow> 64 word \<Rightarrow> (neat_population \<times> 64 word) outcome option" where
  "neat_evolve pop seed =
     (case evaluate_and_speciate pop of
        Undefined \<Rightarrow> Some Undefined
      | Returns pop3 \<Rightarrow>
          (case neat_remove_stale_species pop3 of
             None \<Rightarrow> None
           | Some Undefined \<Rightarrow> Some Undefined
           | Some (Returns pop4) \<Rightarrow>
               (case neat_remove_weak_species pop4 of
                  Undefined \<Rightarrow> Some Undefined
                | Returns pop5 \<Rightarrow> neat_reproduce pop5 seed)))"

section \<open>The compatibility distance in the words of the specification\<close>



definition spec_matching ::
  "neat_connection list \<Rightarrow> neat_connection list \<Rightarrow> (neat_connection \<times> neat_connection) list" where
  "spec_matching cs1 cs2 =
     concat (map (\<lambda>c1. map (\<lambda>c2. (c1, c2))
                          (filter (\<lambda>c2. innovation c2 = innovation c1) cs2)) cs1)"






section \<open>Example genomes and populations\<close>

text \<open>A genome with one hidden node and no connection, and one with an input and an
  output node.\<close>

definition hidden_node :: neat_node where
  "hidden_node =
     \<lparr>node_id = 0, node_type = NEAT_NODE_HIDDEN, placement = NEAT_PLACEMENT_HIDDEN,
      activation_type = NEAT_ACTIVATION_SIGMOID, node_value = Num 0, bias = Num 0,
      active = True, x_pos = 0\<rparr>"

definition input_node :: "int \<Rightarrow> neat_node" where
  "input_node i =
     \<lparr>node_id = i, node_type = NEAT_NODE_INPUT, placement = NEAT_PLACEMENT_INPUT,
      activation_type = NEAT_ACTIVATION_SIGMOID, node_value = Num 0, bias = Num 0,
      active = True, x_pos = 0\<rparr>"

definition output_node :: "int \<Rightarrow> neat_node" where
  "output_node i =
     \<lparr>node_id = i, node_type = NEAT_NODE_OUTPUT, placement = NEAT_PLACEMENT_OUTPUT,
      activation_type = NEAT_ACTIVATION_SIGMOID, node_value = Num 0, bias = Num 0,
      active = True, x_pos = 0\<rparr>"

definition one_hidden_genome :: neat_genome where
  "one_hidden_genome = (neat_create_genome 1)\<lparr>nodes := [hidden_node]\<rparr>"

definition in_out_genome :: neat_genome where
  "in_out_genome = (neat_create_genome 1)\<lparr>nodes := [input_node 0, output_node 1]\<rparr>"

definition bias_node :: "int \<Rightarrow> neat_node" where
  "bias_node i =
     \<lparr>node_id = i, node_type = NEAT_NODE_BIAS, placement = NEAT_PLACEMENT_INPUT,
      activation_type = NEAT_ACTIVATION_SIGMOID, node_value = Num 0, bias = Num 0,
      active = True, x_pos = 0\<rparr>"

text \<open>The topology that \<^verbatim>\<open>neat_create_population\<close> builds for one input and one output:
  input, bias and output node, and a connection from each of the first two to the third
  (the innovation numbers are those a fresh table hands out).\<close>

definition initial_genome :: neat_genome where
  "initial_genome =
     (neat_create_genome 0)
       \<lparr>nodes := [input_node 0, bias_node 1, output_node 2],
        connections := [neat_create_connection 2 0 2 (Num 1) True,
                        neat_create_connection 4 1 2 (Num 1) True]\<rparr>"

text \<open>A genome whose evaluation order was computed by an earlier activation.\<close>

definition cached_genome :: neat_genome where
  "cached_genome = one_hidden_genome\<lparr>evaluation_order := Some [0]\<rparr>"

definition fit_genome :: "int \<Rightarrow> double \<Rightarrow> neat_genome" where
  "fit_genome i f = (neat_create_genome i)\<lparr>fitness := f\<rparr>"


text \<open>A population of one genome in one species, target size 1, whose fitness callback
  returns 0.5 for every genome.\<close>

definition half_fit_population :: neat_population where
  "half_fit_population =
     \<lparr>genomes = [neat_create_genome 0],
      species = [(neat_create_species 1)\<lparr>members := [0], best_fitness := Num 0,
                   representative := Some 0\<rparr>],
      innovation_table = neat_create_innovation_table,
      population_size = 1, generation = 0, max_fitness_achieved = 0,
      evaluate_genome = Some (\<lambda>g. (Num (1 / 2), g))\<rparr>"

text \<open>Two parents with the same topology; each has one connection, with innovation
  number 1, and the weights differ.\<close>

definition parent_a :: neat_genome where
  "parent_a = in_out_genome\<lparr>connections := [neat_create_connection 1 0 1 (Num (1 / 2)) True],
                            fitness := Num 2\<rparr>"

definition parent_b :: neat_genome where
  "parent_b = in_out_genome\<lparr>connections := [neat_create_connection 1 0 1 (Num (1 / 4)) True],
                            fitness := Num 1\<rparr>"

text \<open>
  A genome is fit for activation when every connection names a source node that exists
  and every entry of a cached evaluation order is the index of a node.
\<close>

definition count_input_nodes :: "neat_node list \<Rightarrow> nat" where
  "count_input_nodes ns = length (filter (\<lambda>node. node_type node = NEAT_NODE_INPUT) ns)"

definition network_ok :: "neat_genome \<Rightarrow> bool" where
  "network_ok g \<longleftrightarrow>
     list_all (\<lambda>c. 0 \<le> in_node c \<and> in_node c < int (length (nodes g))) (connections g)
     \<and> (case evaluation_order g of
          None \<Rightarrow> True
        | Some ord \<Rightarrow> list_all (\<lambda>k. 0 \<le> k \<and> k < int (length (nodes g))) ord)"

text \<open>
  A population whose first species has no member and whose second species holds the
  only genome, of fitness 0; the target size is 2.
\<close>

definition stuck_population :: neat_population where
  "stuck_population =
     \<lparr>genomes = [neat_create_genome 0],
      species = [neat_create_species 1,
                 (neat_create_species 2)\<lparr>members := [0], best_fitness := Num 0,
                    representative := Some 0\<rparr>],
      innovation_table = neat_create_innovation_table,
      population_size = 2, generation = 0, max_fitness_achieved = 0,
      evaluate_genome = None\<rparr>"

text \<open>A population without species, and one with two species that both have members.\<close>

definition no_species_population :: neat_population where
  "no_species_population =
     \<lparr>genomes = [neat_create_genome 0], species = [],
      innovation_table = neat_create_innovation_table,
      population_size = 1, generation = 0, max_fitness_achieved = 0,
      evaluate_genome = None\<rparr>"

definition two_species_population :: neat_population where
  "two_species_population =
     \<lparr>genomes = [fit_genome 0 (Num 3), fit_genome 1 (Num 1), fit_genome 2 (Num 2)],
      species = [(neat_create_species 1)\<lparr>members := [0], best_fitness := Num 3,
                   average_fitness := Num 3, representative := Some 0\<rparr>,
                 (neat_create_species 2)\<lparr>members := [1, 2], best_fitness := Num 2,
                   average_fitness := Num (3 / 2), representative := Some 1\<rparr>],
      innovation_table = neat_create_innovation_table,
      population_size = 5, generation = 0, max_fitness_achieved = 3,
      evaluate_genome = None\<rparr>"

text \<open>
  A genome has room for a node split when its connection array is not full and it has
  fewer than 64 connections, so that a child of two such parents has fewer than
  \<open>NEAT_DEFAULT_ALLOC_SIZE\<close>. \<open>members_have_room\<close> says so of every genome that a species
  of the population points to.
\<close>

definition room_to_split :: "neat_genome \<Rightarrow> bool" where
  "room_to_split g \<longleftrightarrow>
     length (connections g) < 64 \<and> length (connections g) < connection_capacity g"

definition members_have_room :: "neat_population \<Rightarrow> bool" where
  "members_have_room pop \<longleftrightarrow>
     list_all (\<lambda>sp. list_all (\<lambda>m. room_to_split (genomes pop ! m)) (members sp))
       (species pop)"

text \<open>An innovation table that has registered the connection 0 to 1 under number 2.\<close>

definition one_link_table :: neat_innovation_table where
  "one_link_table =
     \<lparr>innovations = [\<lparr>innovation_id = 1, innov_in_node = 0, innov_out_node = 1,
                       innovation_number = 2, is_new_node = False, innov_node_id = 0,
                       innov_weight = Num (1 / 2)\<rparr>],
      next_innovation = 3, next_node_id = 1, next_species_id = 1\<rparr>"

text \<open>
  Two genomes with the single connection 0 to 1: \<open>split_genome_a\<close> has two nodes,
  \<open>split_genome_b\<close> has a third, unconnected node.
\<close>

definition split_genome_a :: neat_genome where
  "split_genome_a =
     in_out_genome\<lparr>connections := [neat_create_connection 2 0 1 (Num (1 / 2)) True]\<rparr>"

definition split_genome_b :: neat_genome where
  "split_genome_b =
     (neat_create_genome 2)
       \<lparr>nodes := [input_node 0, output_node 1, hidden_node\<lparr>node_id := 2\<rparr>],
        connections := [neat_create_connection 2 0 1 (Num (1 / 4)) True]\<rparr>"




text \<open>
  A genome whose connection array is full: the topology that \<^verbatim>\<open>neat_create_population\<close>
  builds for 127 inputs and one output, with 127 input nodes, the bias node 127, the
  output node 128 and a connection from each of the first 128 nodes to the last, in an
  array of the initial capacity 128. A population that holds it in its one species, with
  target size 2.
\<close>

definition full_genome :: neat_genome where
  "full_genome =
     (neat_create_genome 0)
       \<lparr>nodes := map (\<lambda>k. input_node (int k)) [0 ..< 127] @ [bias_node 127, output_node 128],
        connections := map (\<lambda>k. neat_create_connection (2 * int k + 2) (int k) 128 (Num 1) True)
                         [0 ..< 128]\<rparr>"

definition full_population :: neat_population where
  "full_population =
     \<lparr>genomes = [full_genome],
      species = [(neat_create_species 1)\<lparr>members := [0], best_fitness := Num 0,
                   representative := Some 0\<rparr>],
      innovation_table = neat_create_innovation_table,
      population_size = 2, generation = 0, max_fitness_achieved = 0,
      evaluate_genome = None\<rparr>"

text \<open>
  The stale-species loop stands still at index \<open>i\<close> when the best fitness of the species
  there exceeds \<open>max_fitness_achieved\<close> and also exceeds its own conversion to \<^verbatim>\<open>int\<close>
  (it has a fractional part): the branch taken stores the converted fitness and leaves
  the index where it is, so the same test succeeds again.
\<close>

definition stuck_at :: "nat \<Rightarrow> neat_species list \<Rightarrow> int \<Rightarrow> bool" where
  "stuck_at i sps mx \<longleftrightarrow>
     i < length sps \<and> best_fitness (sps ! i) > double_of_int mx
     \<and> (case c_double_to_int (best_fitness (sps ! i)) of
          Undefined \<Rightarrow> False
        | Returns m \<Rightarrow> best_fitness (sps ! i) > double_of_int m)"

section \<open>Properties of the genome operations\<close>

lemma connection_exists_iff:
  "connection_exists cs i_n o_n \<longleftrightarrow> (\<exists>c \<in> set cs. in_node c = i_n \<and> out_node c = o_n)"
  by (induction cs) auto

text \<open>
  Claim C6, as stated, fails: \<^verbatim>\<open>neat_add_connection\<close> accepts a self-loop (node 0 to
  node 0) and a connection from an output node back to an input node; it returns 0 and
  appends the connection in both cases.
\<close>

theorem neat_add_connection_accepts_self_loop_and_backward:
  "neat_add_connection one_hidden_genome 0 0 (Num (1 / 2)) True =
     (0, one_hidden_genome\<lparr>connections := [neat_create_connection (- 1) 0 0 (Num (1 / 2)) True]\<rparr>)
   \<and> neat_add_connection in_out_genome 1 0 (Num (1 / 2)) True =
     (0, in_out_genome\<lparr>connections := [neat_create_connection (- 1) 1 0 (Num (1 / 2)) True]\<rparr>)"
  by (simp add: neat_add_connection_def one_hidden_genome_def in_out_genome_def
      neat_create_genome_def NEAT_DEFAULT_ALLOC_SIZE_def)

text \<open>
  Claim C6, amended: \<^verbatim>\<open>neat_add_connection\<close> returns failure (-1) and leaves the genome
  unchanged exactly when some existing connection has the same endpoint pair; in every
  other case, whatever the endpoints and their placements, it returns 0, appends the
  connection with innovation id -1 (unset) and clears the cached evaluation order (the
  capacity of the connection array doubles when the array was full).
\<close>

theorem neat_add_connection_rejects_only_duplicates:
  "((\<exists>c \<in> set (connections g). in_node c = i_n \<and> out_node c = o_n) \<longrightarrow>
      neat_add_connection g i_n o_n w en = (- 1, g))
   \<and> (\<not> (\<exists>c \<in> set (connections g). in_node c = i_n \<and> out_node c = o_n) \<longrightarrow>
      neat_add_connection g i_n o_n w en =
        (0, g\<lparr>connections := connections g @
                 [\<lparr>innovation = - 1, in_node = i_n, out_node = o_n, weight = w, enabled = en\<rparr>],
              connection_capacity :=
                 (if length (connections g) \<ge> connection_capacity g
                  then connection_capacity g * 2 else connection_capacity g),
              evaluation_order := None\<rparr>))"
  by (simp add: neat_add_connection_def connection_exists_iff neat_create_connection_def
      NEAT_GROWTH_FACTOR_def)

text \<open>
  Witness for the amended claim C6: in a genome that holds the connection 0 to 2, adding
  0 to 2 again fails and changes nothing, and adding the backward connection 2 to 0
  succeeds.
\<close>

theorem neat_add_connection_rejects_only_duplicates_witness:
  "neat_add_connection initial_genome 0 2 (Num (1 / 2)) True = (- 1, initial_genome)
   \<and> neat_add_connection initial_genome 2 0 (Num (1 / 2)) True =
       (0, initial_genome\<lparr>connections := connections initial_genome @
              [\<lparr>innovation = - 1, in_node = 2, out_node = 0, weight = Num (1 / 2),
                enabled = True\<rparr>],
            evaluation_order := None\<rparr>)"
  using neat_add_connection_rejects_only_duplicates [of initial_genome 0 2 "Num (1 / 2)" True]
    neat_add_connection_rejects_only_duplicates [of initial_genome 2 0 "Num (1 / 2)" True]
  by (simp add: initial_genome_def neat_create_connection_def neat_create_genome_def
      NEAT_DEFAULT_ALLOC_SIZE_def)

text \<open>
  Claim C8 at a failing input: a genome with one node whose evaluation order \<open>[0]\<close> is
  cached. \<^verbatim>\<open>neat_add_node\<close> returns the next local id 1 and appends the node, but the
  cached order is still \<open>[0]\<close>; the following activation keeps that order and never
  computes the new node, whose value stays 0.
\<close>

theorem neat_add_node_keeps_cached_order:
  "fst (neat_add_node cached_genome NEAT_NODE_HIDDEN NEAT_PLACEMENT_HIDDEN 1) = 1
   \<and> length (nodes (fst (snd
        (neat_add_node cached_genome NEAT_NODE_HIDDEN NEAT_PLACEMENT_HIDDEN 1)))) = 2
   \<and> evaluation_order (fst (snd
        (neat_add_node cached_genome NEAT_NODE_HIDDEN NEAT_PLACEMENT_HIDDEN 1))) = Some [0]
   \<and> (case neat_evaluate (fst (snd
        (neat_add_node cached_genome NEAT_NODE_HIDDEN NEAT_PLACEMENT_HIDDEN 1))) [] of
        Undefined \<Rightarrow> False
      | Returns (g, outs) \<Rightarrow>
          evaluation_order g = Some [0] \<and> map node_value (nodes g) = [Num (1 / 2), Num 0])"
  by (simp add: neat_add_node_def cached_genome_def one_hidden_genome_def neat_create_genome_def
      split_def Let_def neat_evaluate_def neat_create_node_def hidden_node_def
      neat_update_network_def reset_node_def)

section \<open>Properties of the activation\<close>

text \<open>
  Claim C1 at a failing input: the initial topology with bias 0 on every node, activated
  on the input vector \<open>[0]\<close>. \<^verbatim>\<open>neat_evaluate\<close> sets the bias node to 1.0, but
  \<^verbatim>\<open>neat_update_network\<close> then resets it with every other non-input node and computes it
  as \<open>f(bias + sum)\<close>: its value after activation is sigmoid(0) = 1/2, not 1.
\<close>

theorem neat_evaluate_overwrites_bias_node:
  "case neat_evaluate initial_genome [Num 0] of
     Undefined \<Rightarrow> False
   | Returns (g, outs) \<Rightarrow>
       node_type (nodes g ! 1) = NEAT_NODE_BIAS \<and> node_value (nodes g ! 1) = Num (1 / 2)"
  by (simp add: neat_evaluate_def initial_genome_def neat_create_genome_def input_node_def
      bias_node_def output_node_def neat_create_connection_def NEAT_MAX_INPUTS_def
      neat_update_network_def reset_node_def upt_rec)

text \<open>
  Claim C9, as stated, fails: a genome with one input node activated on a vector of two
  values returns normally, with the same result as on the first value alone. The function
  has no length parameter and no return value.
\<close>

theorem neat_evaluate_accepts_wrong_arity:
  "neat_evaluate in_out_genome [Num 1, Num 2] =
     Returns (in_out_genome\<lparr>nodes := [(input_node 0)\<lparr>node_value := Num 1\<rparr>,
                                       (output_node 1)\<lparr>node_value := Num (1 / 2)\<rparr>],
                             evaluation_order := Some [0, 1]\<rparr>, [Num (1 / 2)])
   \<and> neat_evaluate in_out_genome [Num 1, Num 2] = neat_evaluate in_out_genome [Num 1]"
  by (simp add: neat_evaluate_def in_out_genome_def neat_create_genome_def input_node_def
      output_node_def NEAT_MAX_INPUTS_def NEAT_MAX_OUTPUTS_def collect_outputs_def
      neat_update_network_def reset_node_def upt_rec)

section \<open>Properties of the random numbers\<close>



lemma xorshift32_1: "xorshift32 1 = (270369, 270369)"
  by (simp add: xorshift32_def)






section \<open>Properties of the compatibility distance\<close>


lemma compare_connections_Nil2 [simp]:
  "compare_connections cs [] m d w = (m, d, length cs, w)"
  by (cases cs) auto









text \<open>
  On connection lists in strictly increasing order of innovation id the merge loop counts
  what the specification describes: the genes with an id in both genomes, the unmatched
  genes that are not beyond the other genome, and the genes beyond it.
\<close>

lemma spec_matching_Nil [simp]: "spec_matching [] cs2 = []" "spec_matching cs1 [] = []"
  by (simp_all add: spec_matching_def)








section \<open>Properties of the stale-species pass\<close>

lemma stale_loop_Some_not_stuck:
  assumes "stale_species_loop i sps mx = Some y"
  shows "\<not> stuck_at i sps mx"
  apply (rule stale_species_loop.raw_induct [where P = "\<lambda>i sps mx y. \<not> stuck_at i sps mx", OF _ assms])
  subgoal premises p for loop i sps mx y
  proof
    assume s: "stuck_at i sps mx"
    then obtain m where m: "c_double_to_int (best_fitness (sps ! i)) = Returns m"
      and gt: "best_fitness (sps ! i) > double_of_int m"
      by (auto simp: stuck_at_def split: outcome.splits)
    from s m p(2) have "loop i (sps[i := (sps ! i)\<lparr>staleness := 0\<rparr>]) m = Some y"
      by (simp add: stuck_at_def)
    from p(1) [OF this] s m gt show False by (simp add: stuck_at_def)
  qed
  done

lemma stale_loop_diverges:
  "stuck_at i sps mx \<Longrightarrow> stale_species_loop i sps mx = None"
  using stale_loop_Some_not_stuck [of i sps mx] by (cases "stale_species_loop i sps mx") auto

lemma map_update_same: "(map f xs)[i := f (xs ! i)] = map f xs"
  by (simp add: map_update [symmetric])

text \<open>Whenever the loop returns, the species list holds the same species with the same
  members as before: the pass removes nothing.\<close>

lemma stale_loop_keeps_species:
  assumes "stale_species_loop i sps mx = Some (Returns y)"
  shows "map sp_id (fst y) = map sp_id sps \<and> map members (fst y) = map members sps
         \<and> map best_fitness (fst y) = map best_fitness sps"
  apply (rule stale_species_loop.raw_induct
    [where P = "\<lambda>i sps mx r. \<forall>y. r = Returns y \<longrightarrow> map sp_id (fst y) = map sp_id sps
         \<and> map members (fst y) = map members sps
         \<and> map best_fitness (fst y) = map best_fitness sps", OF _ assms, rule_format])
  subgoal premises p for loop i sps mx r y
    using p(2) p(3) p(1)
    by (auto simp: map_update map_update_same split: if_splits outcome.splits dest!: p(1))
  by simp

lemma neat_remove_stale_species_removes_nothing:
  "neat_remove_stale_species pop = Some (Returns pop1) \<Longrightarrow>
     map sp_id (species pop1) = map sp_id (species pop)
     \<and> map members (species pop1) = map members (species pop)"
  using stale_loop_keeps_species [of 0 "species pop" "max_fitness_achieved pop"]
  by (auto simp: neat_remove_stale_species_def split: option.splits outcome.splits)

section \<open>Properties of one generation\<close>

text \<open>
  Claim C5 at a failing input: \<open>half_fit_population\<close> has one genome in one species and
  target size 1, and its callback returns fitness 0.5. \<^verbatim>\<open>neat_evolve\<close> stores
  \<open>(int) 0.5 = 0\<close> in \<open>max_fitness_achieved\<close>, speciates, and enters
  \<^verbatim>\<open>neat_remove_stale_species\<close>, where \<open>0.5 > 0\<close> holds on every round: the call
  never returns, so the population never reaches the state the claim describes.
\<close>

theorem neat_evolve_does_not_return:
  "neat_evolve half_fit_population 1 = None"
proof -
  have "stale_species_loop 0 [\<lparr>sp_id = 1, members = [0], best_fitness = Num (1 / 2),
      average_fitness = Num (1 / 2), staleness = 0, age = 0, representative = Some 0\<rparr>] 0 = None"
    by (rule stale_loop_diverges) (simp add: stuck_at_def double_of_int_def)
  then show ?thesis
    by (simp add: neat_evolve_def evaluate_and_speciate_def half_fit_population_def
        neat_create_genome_def double_of_int_def double_of_nat_def sum_fitness_def
        neat_speciate_def neat_add_genome_to_species_def
        neat_create_species_def neat_create_innovation_table_def neat_adjust_fitness_def
        neat_remove_stale_species_def Let_def)
qed

section \<open>Properties of crossover\<close>

text \<open>Every connection of a child is appended by \<^verbatim>\<open>neat_add_connection\<close>, which sets its
  innovation number to -1, and \<^verbatim>\<open>neat_crossover\<close> never writes the field afterwards.\<close>

lemma add_connection_unset:
  "list_all (\<lambda>c. innovation c = - 1) (connections g) \<Longrightarrow>
   list_all (\<lambda>c. innovation c = - 1) (connections (snd (neat_add_connection g i_n o_n w en)))"
  by (simp add: neat_add_connection_def neat_create_connection_def)

lemma copy_nodes_connections:
  "connections (fst (copy_nodes ns child seed)) = connections child"
  by (induction ns arbitrary: child seed) (simp_all add: split_def Let_def neat_add_node_def)

lemma inherit_connections_unset:
  "list_all (\<lambda>c. innovation c = - 1) (connections child) \<Longrightarrow>
   list_all (\<lambda>c. innovation c = - 1)
     (connections (fst (inherit_connections cs other child seed)))"
proof (induction cs arbitrary: child seed)
  case Nil
  then show ?case by simp
next
  case (Cons c cs)
  show ?case
    using Cons.prems
    by (auto simp: split_def Let_def intro!: Cons.IH add_connection_unset split: option.splits)
qed

lemma remaining_connections_unset:
  "list_all (\<lambda>c. innovation c = - 1) (connections child) \<Longrightarrow>
   list_all (\<lambda>c. innovation c = - 1)
     (connections (fst (remaining_connections cs fitter child seed)))"
proof (induction cs arbitrary: child seed)
  case Nil
  then show ?case by simp
next
  case (Cons c cs)
  show ?case
    using Cons.prems
    by (auto simp: split_def Let_def intro!: Cons.IH add_connection_unset split: option.splits)
qed

lemma neat_crossover_innovations_unset:
  "list_all (\<lambda>c. innovation c = - 1) (connections (fst (neat_crossover p1 p2 seed)))"
  unfolding neat_crossover_def Let_def split_def
  by (intro remaining_connections_unset inherit_connections_unset)
     (simp add: copy_nodes_connections neat_create_genome_def)

text \<open>
  Claim C2 at a failing input: both parents carry innovation number 1 on their only
  connection; the connection of the child carries -1, the number of no connection of
  either parent.
\<close>

theorem neat_crossover_drops_innovation_ids:
  "map innovation (connections parent_a) = [1]
   \<and> map innovation (connections parent_b) = [1]
   \<and> map innovation (connections (fst (neat_crossover parent_a parent_b 1))) = [- 1]"
  by (simp add: neat_crossover_def parent_a_def parent_b_def in_out_genome_def
      neat_create_genome_def neat_create_connection_def input_node_def output_node_def
      neat_add_node_def neat_create_node_def neat_add_connection_def split_def Let_def)

section \<open>Activation and the length of the input vector\<close>

lemma set_inputs_enough:
  "min (k + count_input_nodes ns) NEAT_MAX_INPUTS \<le> length inputs \<Longrightarrow>
   \<exists>r. set_inputs ns inputs k = Returns r \<and> length r = length ns
       \<and> set_inputs ns (inputs @ extra) k = Returns r"
proof (induction ns arbitrary: k)
  case Nil
  then show ?case by simp
next
  case (Cons node ns)
  show ?case
  proof (cases "node_type node = NEAT_NODE_INPUT")
    case True
    show ?thesis
    proof (cases "k < NEAT_MAX_INPUTS")
      case lt: True
      with True Cons.prems have k: "k < length inputs"
        by (simp add: count_input_nodes_def min_def split: if_splits)
      from True Cons.prems have "min (Suc k + count_input_nodes ns) NEAT_MAX_INPUTS \<le> length inputs"
        by (simp add: count_input_nodes_def)
      from Cons.IH[OF this] obtain r where "set_inputs ns inputs (Suc k) = Returns r"
        "length r = length ns" "set_inputs ns (inputs @ extra) (Suc k) = Returns r" by auto
      with True lt k show ?thesis by (simp add: nth_append)
    next
      case ge: False
      from True Cons.prems ge have "min (k + count_input_nodes ns) NEAT_MAX_INPUTS \<le> length inputs"
        by (simp add: count_input_nodes_def min_def split: if_splits)
      from Cons.IH[OF this] obtain r where "set_inputs ns inputs k = Returns r"
        "length r = length ns" "set_inputs ns (inputs @ extra) k = Returns r" by auto
      with True ge show ?thesis by simp
    qed
  next
    case False
    from False Cons.prems have "min (k + count_input_nodes ns) NEAT_MAX_INPUTS \<le> length inputs"
      by (simp add: count_input_nodes_def)
    from Cons.IH[OF this] obtain r where "set_inputs ns inputs k = Returns r"
      "length r = length ns" "set_inputs ns (inputs @ extra) k = Returns r" by auto
    with False show ?thesis by simp
  qed
qed

lemma set_inputs_too_few:
  "k \<le> length inputs \<Longrightarrow> length inputs < min (k + count_input_nodes ns) NEAT_MAX_INPUTS \<Longrightarrow>
   set_inputs ns inputs k = Undefined"
proof (induction ns arbitrary: k)
  case Nil
  then show ?case by (simp add: count_input_nodes_def)
next
  case (Cons node ns)
  show ?case
  proof (cases "node_type node = NEAT_NODE_INPUT")
    case True
    from Cons.prems have lt: "k < NEAT_MAX_INPUTS" by simp
    show ?thesis
    proof (cases "k < length inputs")
      case k: True
      with True Cons.prems have "set_inputs ns inputs (Suc k) = Undefined"
        by (intro Cons.IH) (simp_all add: count_input_nodes_def)
      with True lt k show ?thesis by simp
    next
      case False
      with True lt show ?thesis by simp
    qed
  next
    case False
    with Cons.prems have "set_inputs ns inputs k = Undefined"
      by (intro Cons.IH) (simp_all add: count_input_nodes_def)
    with False show ?thesis by simp
  qed
qed

lemma sum_inputs_returns:
  "list_all (\<lambda>c. 0 \<le> in_node c \<and> in_node c < int (length ns)) cs \<Longrightarrow>
   \<exists>s. sum_inputs ns cs nid acc = Returns s"
  by (induction cs arbitrary: acc) auto

lemma evaluate_nodes_returns:
  "list_all (\<lambda>k. 0 \<le> k \<and> k < int (length ns)) order \<Longrightarrow>
   list_all (\<lambda>c. 0 \<le> in_node c \<and> in_node c < int (length ns)) cs \<Longrightarrow>
   \<exists>r. evaluate_nodes order cs ns = Returns r \<and> length r = length ns"
proof (induction order arbitrary: ns)
  case Nil
  then show ?case by simp
next
  case (Cons k order)
  from Cons.prems(2) obtain s where s: "sum_inputs ns cs (node_id (ns ! nat k)) (Num 0) = Returns s"
    using sum_inputs_returns by blast
  show ?case
  proof (cases "node_type (ns ! nat k) = NEAT_NODE_INPUT")
    case True
    with Cons show ?thesis by simp
  next
    case False
    let ?ns = "ns[nat k := (ns ! nat k)\<lparr>node_value :=
                 neat_activation (activation_type (ns ! nat k)) (s + bias (ns ! nat k))\<rparr>]"
    from Cons.prems have "\<exists>r. evaluate_nodes order cs ?ns = Returns r \<and> length r = length ?ns"
      by (intro Cons.IH) simp_all
    with False s Cons.prems show ?thesis by simp
  qed
qed

lemma neat_update_network_returns:
  "network_ok g \<Longrightarrow> \<exists>g1. neat_update_network g = Returns g1"
proof -
  assume ok: "network_ok g"
  let ?order = "case evaluation_order g of None \<Rightarrow> map int [0 ..< length (nodes g)] | Some ord \<Rightarrow> ord"
  have "list_all (\<lambda>k. 0 \<le> k \<and> k < int (length (map reset_node (nodes g)))) ?order"
    using ok by (auto simp: network_ok_def list_all_iff split: option.splits)
  moreover have "list_all (\<lambda>c. 0 \<le> in_node c \<and> in_node c < int (length (map reset_node (nodes g)))) (connections g)"
    using ok by (simp add: network_ok_def)
  ultimately obtain r where "evaluate_nodes ?order (connections g) (map reset_node (nodes g)) = Returns r"
    using evaluate_nodes_returns by blast
  then show ?thesis by (simp add: neat_update_network_def)
qed

text \<open>
  Claim C9, amended: \<^verbatim>\<open>neat_evaluate\<close> makes no arity check and reports nothing. On a
  genome fit for activation it returns normally whenever the input vector holds at
  least as many values as the genome has input nodes (at most 1000 are read), and values
  beyond those are ignored; with fewer values it reads beyond the end of the vector,
  which C leaves undefined.
\<close>

theorem neat_evaluate_checks_no_arity:
  "(network_ok g \<and> min (count_input_nodes (nodes g)) NEAT_MAX_INPUTS \<le> length inputs \<longrightarrow>
      (\<exists>g1 outs. neat_evaluate g inputs = Returns (g1, outs)
                \<and> neat_evaluate g (inputs @ extra) = Returns (g1, outs)))
   \<and> (length inputs < min (count_input_nodes (nodes g)) NEAT_MAX_INPUTS \<longrightarrow>
      neat_evaluate g inputs = Undefined)"
proof (intro conjI impI)
  assume a: "network_ok g \<and> min (count_input_nodes (nodes g)) NEAT_MAX_INPUTS \<le> length inputs"
  then obtain r where r: "set_inputs (nodes g) inputs 0 = Returns r" "length r = length (nodes g)"
    "set_inputs (nodes g) (inputs @ extra) 0 = Returns r"
    using set_inputs_enough [of 0 "nodes g" inputs extra] by auto
  from a r(2) have "network_ok (g\<lparr>nodes := r\<rparr>)"
    by (simp add: network_ok_def split: option.splits)
  then obtain g1 where "neat_update_network (g\<lparr>nodes := r\<rparr>) = Returns g1"
    using neat_update_network_returns by blast
  with r show "\<exists>g1 outs. neat_evaluate g inputs = Returns (g1, outs)
                \<and> neat_evaluate g (inputs @ extra) = Returns (g1, outs)"
    by (simp add: neat_evaluate_def)
next
  assume "length inputs < min (count_input_nodes (nodes g)) NEAT_MAX_INPUTS"
  then have "set_inputs (nodes g) inputs 0 = Undefined"
    by (intro set_inputs_too_few) simp_all
  then show "neat_evaluate g inputs = Undefined" by (simp add: neat_evaluate_def)
qed

text \<open>
  Witness for the amended claim C9: the initial genome has one input node; it is
  activated with two values, then three, and with none.
\<close>

theorem neat_evaluate_checks_no_arity_witness:
  "(\<exists>g1 outs. neat_evaluate initial_genome [Num 1, Num 2] = Returns (g1, outs)
                \<and> neat_evaluate initial_genome ([Num 1, Num 2] @ [Num 3]) = Returns (g1, outs))
   \<and> neat_evaluate initial_genome [] = Undefined"
  using neat_evaluate_checks_no_arity [of initial_genome "[Num 1, Num 2]" "[Num 3]"]
    neat_evaluate_checks_no_arity [of initial_genome "[]"]
  by (simp add: network_ok_def initial_genome_def count_input_nodes_def neat_create_genome_def
      input_node_def bias_node_def output_node_def neat_create_connection_def NEAT_MAX_INPUTS_def)

section \<open>Termination of reproduction\<close>

lemma select_species_mem:
  "sps \<noteq> [] \<Longrightarrow> \<exists>sp \<in> set sps. select_species sps r = Some sp"
  by (induction sps arbitrary: r) auto

lemma neat_random_int_range:
  "0 < n \<Longrightarrow> 0 \<le> fst (neat_random_int 0 (int n - 1) s)
           \<and> nat (fst (neat_random_int 0 (int n - 1) s)) < n"
  by (simp add: neat_random_int_def split_def Let_def)

text \<open>The tournaments select members of the species.\<close>

lemma tournament_step_mem:
  assumes "ms \<noteq> []" and "\<forall>p. parent1 = Some p \<longrightarrow> p \<in> set ms"
  shows "\<exists>q \<in> set ms. fst (tournament_step gs ms parent1 seed) = Some q"
  using assms neat_random_int_range [of "length ms" seed]
  by (auto simp: tournament_step_def split_def Let_def split: option.splits)

lemma tournament_step2_mem:
  assumes "ms \<noteq> []" and "\<forall>p. parent2 = Some p \<longrightarrow> p \<in> set ms"
  shows "\<forall>q. fst (tournament_step2 gs ms parent1 parent2 seed) = Some q \<longrightarrow> q \<in> set ms"
  using assms neat_random_int_range [of "length ms" seed]
  by (auto simp: tournament_step2_def split_def Let_def split: option.splits)

lemma select_parents_mem:
  assumes "ms \<noteq> []"
  shows "fst (select_parents gs ms seed) \<in> set ms
       \<and> (\<forall>q. fst (snd (select_parents gs ms seed)) = Some q \<longrightarrow> q \<in> set ms)"
proof -
  obtain a where a: "a \<in> set ms" "fst (tournament_step gs ms None seed) = Some a"
    using tournament_step_mem [OF assms, of None gs seed] by auto
  let ?s1 = "snd (tournament_step gs ms None seed)"
  obtain b where b: "b \<in> set ms" "fst (tournament_step gs ms (Some a) ?s1) = Some b"
    using tournament_step_mem [OF assms, of "Some a" gs ?s1] a by auto
  let ?s2 = "snd (tournament_step gs ms (Some a) ?s1)"
  obtain c where c: "c \<in> set ms" "fst (tournament_step gs ms (Some b) ?s2) = Some c"
    using tournament_step_mem [OF assms, of "Some b" gs ?s2] b by auto
  let ?s3 = "snd (tournament_step gs ms (Some b) ?s2)"
  let ?s4 = "snd (neat_random_uniform (Num 0) (Num 1) ?s3)"
  have p1: "fst (select_parents gs ms seed) = c"
    using a b c by (simp add: select_parents_def split_def Let_def)
  let ?a2 = "tournament_step2 gs ms (Some c) None ?s4"
  let ?b2 = "tournament_step2 gs ms (Some c) (fst ?a2) (snd ?a2)"
  let ?c2 = "tournament_step2 gs ms (Some c) (fst ?b2) (snd ?b2)"
  have m1: "\<forall>q. fst ?a2 = Some q \<longrightarrow> q \<in> set ms"
    by (rule tournament_step2_mem [OF assms]) simp
  have m2: "\<forall>q. fst ?b2 = Some q \<longrightarrow> q \<in> set ms"
    by (rule tournament_step2_mem [OF assms m1])
  have m3: "\<forall>q. fst ?c2 = Some q \<longrightarrow> q \<in> set ms"
    by (rule tournament_step2_mem [OF assms m2])
  have "fst (snd (select_parents gs ms seed)) = None
        \<or> fst (snd (select_parents gs ms seed)) = fst ?c2"
    using a b c by (simp add: select_parents_def split_def Let_def)
  with m3 p1 c show ?thesis by auto
qed

text \<open>
  A child of two parents with fewer than 64 connections each has fewer than 128, the
  capacity it was created with; the weight mutation changes neither number. So the node
  split of an offspring finds room in the array and its first \<^verbatim>\<open>neat_add_connection\<close> does
  not reallocate.
\<close>

lemma add_connection_room:
  "length (connections (snd (neat_add_connection g i_n o_n w en))) \<le> length (connections g) + 1
   \<and> connection_capacity g \<le> connection_capacity (snd (neat_add_connection g i_n o_n w en))"
  by (simp add: neat_add_connection_def NEAT_GROWTH_FACTOR_def)

lemma copy_nodes_capacity:
  "connection_capacity (fst (copy_nodes ns child seed)) = connection_capacity child"
  by (induction ns arbitrary: child seed) (simp_all add: split_def Let_def neat_add_node_def)

lemma inherit_connections_room:
  "length (connections (fst (inherit_connections cs other child seed)))
     \<le> length (connections child) + length cs
   \<and> connection_capacity child
     \<le> connection_capacity (fst (inherit_connections cs other child seed))"
proof (induction cs arbitrary: child seed)
  case Nil
  then show ?case by simp
next
  case (Cons c cs)
  let ?inh = "(case find_matching other (innovation c) of
               None \<Rightarrow> (c, seed)
             | Some matching_conn \<Rightarrow>
                 (let (u, s) = neat_random_uniform (Num 0) (Num 1) seed
                  in (if u < Num (1 / 2) then matching_conn else c, s)))"
  let ?child1 = "snd (neat_add_connection child (in_node (fst ?inh)) (out_node (fst ?inh))
                    (weight (fst ?inh)) (enabled (fst ?inh)))"
  from Cons.IH [of ?child1 "snd ?inh"]
    add_connection_room [of child "in_node (fst ?inh)" "out_node (fst ?inh)"
      "weight (fst ?inh)" "enabled (fst ?inh)"]
  show ?case by (simp add: split_def Let_def)
qed

lemma remaining_connections_room:
  "length (connections (fst (remaining_connections cs fitter child seed)))
     \<le> length (connections child) + length cs
   \<and> connection_capacity child
     \<le> connection_capacity (fst (remaining_connections cs fitter child seed))"
proof (induction cs arbitrary: child seed)
  case Nil
  then show ?case by simp
next
  case (Cons c cs)
  let ?s1 = "snd (neat_random_uniform (Num 0) (Num 1) seed)"
  let ?child1 = "snd (neat_add_connection child (in_node c) (out_node c) (weight c) (enabled c))"
  from Cons.IH [of ?child1 ?s1] Cons.IH [of child ?s1] Cons.IH [of child seed]
    add_connection_room [of child "in_node c" "out_node c" "weight c" "enabled c"]
  show ?case by (auto simp: split_def Let_def split: option.splits)
qed

lemma neat_crossover_room:
  assumes "length (connections p1) < 64" "length (connections p2) < 64"
  shows "length (connections (fst (neat_crossover p1 p2 seed)))
           < connection_capacity (fst (neat_crossover p1 p2 seed))"
proof -
  let ?fitter = "if fitness p1 \<ge> fitness p2 then p1 else p2"
  let ?other = "if fitness p1 \<ge> fitness p2 then p2 else p1"
  let ?c1 = "copy_nodes (nodes ?fitter) (neat_create_genome (- 1)) seed"
  let ?c2 = "inherit_connections (connections ?fitter) (connections ?other) (fst ?c1) (snd ?c1)"
  let ?c3 = "remaining_connections (connections ?other) (connections ?fitter) (fst ?c2) (snd ?c2)"
  have c: "neat_crossover p1 p2 seed = ?c3"
    by (simp add: neat_crossover_def split_def Let_def)
  have 1: "length (connections (fst ?c1)) = 0" "connection_capacity (fst ?c1) = 128"
    by (simp_all add: copy_nodes_connections copy_nodes_capacity neat_create_genome_def
        NEAT_DEFAULT_ALLOC_SIZE_def)
  from inherit_connections_room [of "connections ?fitter" "connections ?other" "fst ?c1" "snd ?c1"] 1
  have 2: "length (connections (fst ?c2)) \<le> length (connections ?fitter)"
    "128 \<le> connection_capacity (fst ?c2)" by simp_all
  from remaining_connections_room [of "connections ?other" "connections ?fitter" "fst ?c2" "snd ?c2"] 2
  have 3: "length (connections (fst ?c3)) \<le> length (connections ?fitter) + length (connections ?other)"
    "128 \<le> connection_capacity (fst ?c3)" by linarith+
  from assms have "length (connections ?fitter) + length (connections ?other) < 128"
    by (cases "fitness p1 \<ge> fitness p2") simp_all
  with 3 show ?thesis unfolding c by linarith
qed

lemma map_state_length: "length (fst (map_state f xs s)) = length xs"
  by (induction xs arbitrary: s) (simp_all add: split_def Let_def)

lemma neat_mutate_weights_room:
  "length (connections (fst (neat_mutate_weights g seed))) = length (connections g)
   \<and> connection_capacity (fst (neat_mutate_weights g seed)) = connection_capacity g"
  by (simp add: neat_mutate_weights_def split_def Let_def map_state_length)

lemma neat_mutate_add_node_returns:
  "length (connections g) < connection_capacity g \<Longrightarrow>
   \<exists>r. neat_mutate_add_node g table seed = Returns r"
  by (auto simp: neat_mutate_add_node_def split_def Let_def neat_add_node_def
      split: option.splits)

lemma neat_mutate_returns:
  assumes "length (connections g) < connection_capacity g"
  shows "\<exists>r. neat_mutate g table seed = Returns r"
proof -
  let ?s1 = "snd (neat_random_uniform (Num 0) (Num 1) seed)"
  let ?g1 = "if fst (neat_random_uniform (Num 0) (Num 1) seed) < NEAT_MUTATE_WEIGHT_RATE
             then neat_mutate_weights g ?s1 else (g, ?s1)"
  from assms neat_mutate_weights_room [of g ?s1]
  have "length (connections (fst ?g1)) < connection_capacity (fst ?g1)" by simp
  from neat_mutate_add_node_returns [OF this]
  obtain r where "neat_mutate_add_node (fst ?g1) table
      (snd (neat_random_uniform (Num 0) (Num 1) (snd ?g1))) = Returns r" by blast
  then show ?thesis
    by (simp add: neat_mutate_def split_def Let_def)
qed

lemma make_offspring_returns:
  assumes "members sp \<noteq> []" and "\<forall>m \<in> set (members sp). room_to_split (gs ! m)"
  shows "\<exists>r. make_offspring gs sp table seed = Returns r"
proof -
  let ?sel = "select_parents gs (members sp) seed"
  let ?off = "case fst (snd ?sel) of
                Some p2 \<Rightarrow> neat_crossover (gs ! fst ?sel) (gs ! p2) (snd (snd ?sel))
              | None \<Rightarrow> (neat_clone_genome (gs ! fst ?sel), snd (snd ?sel))"
  from select_parents_mem [OF assms(1), of gs seed] assms(2)
  have r1: "room_to_split (gs ! fst ?sel)"
    and r2: "\<forall>q. fst (snd ?sel) = Some q \<longrightarrow> room_to_split (gs ! q)" by auto
  have "length (connections (fst ?off)) < connection_capacity (fst ?off)"
  proof (cases "fst (snd ?sel)")
    case None
    with r1 show ?thesis by (simp add: neat_clone_genome_def room_to_split_def)
  next
    case (Some p2)
    with r1 r2 show ?thesis
      by (simp add: neat_crossover_room room_to_split_def)
  qed
  from neat_mutate_returns [OF this, of "Some table" "snd ?off"]
  obtain r where "neat_mutate (fst ?off) (Some table) (snd ?off) = Returns r" by blast
  then show ?thesis
    by (simp add: make_offspring_def split_def Let_def)
qed

text \<open>
  When every species has a member, each round of the offspring loop adds a genome or
  ends in the undefined read of the node split, so the loop ends after at most
  \<open>psize - length newg\<close> rounds.
\<close>

lemma fill_offspring_terminates:
  assumes "sps \<noteq> []" and "\<forall>sp \<in> set sps. members sp \<noteq> []"
  shows "\<exists>r. fill_offspring gs sps tot psize newg table seed = Some r
             \<and> (\<forall>res. r = Returns res \<longrightarrow> length (fst res) = max psize (length newg))"
proof (induction "psize - length newg" arbitrary: newg table seed)
  case 0
  then show ?case by (subst fill_offspring.simps) (simp add: max_def)
next
  case (Suc n)
  then have lt: "length newg < psize" by simp
  obtain sp where sp: "sp \<in> set sps"
      "select_species sps (fst (neat_random_uniform (Num 0) tot seed)) = Some sp"
    using select_species_mem [OF assms(1)] by blast
  with assms(2) have ne: "members sp \<noteq> []" by blast
  let ?seed1 = "snd (neat_random_uniform (Num 0) tot seed)"
  show ?case
  proof (cases "make_offspring gs sp table ?seed1")
    case Undefined
    with lt sp ne show ?thesis by (subst fill_offspring.simps) simp
  next
    case (Returns off)
    from Suc(2) have "n = psize - length (newg @ [fst off])" by simp
    from Suc(1) [OF this, of "fst (snd off)" "snd (snd off)"]
    obtain r where "fill_offspring gs sps tot psize (newg @ [fst off]) (fst (snd off))
        (snd (snd off)) = Some r"
      "\<forall>res. r = Returns res \<longrightarrow> length (fst res) = max psize (length (newg @ [fst off]))"
      by blast
    with lt sp ne Returns show ?thesis
      by (subst fill_offspring.simps) (simp add: max_def)
  qed
qed

lemma fill_offspring_returns:
  assumes "sps \<noteq> []" and "\<forall>sp \<in> set sps. members sp \<noteq> []"
    and "\<forall>sp \<in> set sps. \<forall>m \<in> set (members sp). room_to_split (gs ! m)"
  shows "\<exists>res. fill_offspring gs sps tot psize newg table seed = Some (Returns res)
               \<and> length (fst res) = max psize (length newg)"
proof (induction "psize - length newg" arbitrary: newg table seed)
  case 0
  then show ?case by (subst fill_offspring.simps) (simp add: max_def)
next
  case (Suc n)
  then have lt: "length newg < psize" by simp
  obtain sp where sp: "sp \<in> set sps"
      "select_species sps (fst (neat_random_uniform (Num 0) tot seed)) = Some sp"
    using select_species_mem [OF assms(1)] by blast
  with assms(2) have ne: "members sp \<noteq> []" by blast
  from sp assms(3) have room: "\<forall>m \<in> set (members sp). room_to_split (gs ! m)" by blast
  let ?seed1 = "snd (neat_random_uniform (Num 0) tot seed)"
  from make_offspring_returns [OF ne room, of table ?seed1]
  obtain off where off: "make_offspring gs sp table ?seed1 = Returns off" by blast
  from Suc(2) have "n = psize - length (newg @ [fst off])" by simp
  from Suc(1) [OF this, of "fst (snd off)" "snd (snd off)"]
  obtain res where "fill_offspring gs sps tot psize (newg @ [fst off]) (fst (snd off))
      (snd (snd off)) = Some (Returns res)"
    "length (fst res) = max psize (length (newg @ [fst off]))"
    by blast
  with lt sp ne off show ?case
    by (subst fill_offspring.simps) (simp add: max_def)
qed

text \<open>The loop does not end when it has room left and every draw selects no species or
  one without members.\<close>

lemma fill_offspring_stuck:
  assumes "fill_offspring gs sps tot psize newg table seed = Some y"
  shows "\<not> (length newg < psize \<and>
            (\<forall>s. case select_species sps (fst (neat_random_uniform (Num 0) tot s)) of
                   None \<Rightarrow> True | Some sp \<Rightarrow> members sp = []))"
  apply (rule fill_offspring.raw_induct
    [where P = "\<lambda>gs sps tot psize newg table seed y. \<not> (length newg < psize \<and>
            (\<forall>s. case select_species sps (fst (neat_random_uniform (Num 0) tot s)) of
                   None \<Rightarrow> True | Some sp \<Rightarrow> members sp = []))", OF _ assms])
  subgoal premises p for f gs sps tot psize newg table seed y
  proof
    assume inv: "length newg < psize \<and>
            (\<forall>s. case select_species sps (fst (neat_random_uniform (Num 0) tot s)) of
                   None \<Rightarrow> True | Some sp \<Rightarrow> members sp = [])"
    then have sel: "case select_species sps (fst (neat_random_uniform (Num 0) tot seed)) of
                   None \<Rightarrow> True | Some sp \<Rightarrow> members sp = []" by blast
    from p(2) inv sel
    have "f gs sps tot psize newg table (snd (neat_random_uniform (Num 0) tot seed)) = Some y"
      by (auto split: option.splits)
    from p(1) [OF this] inv show False by blast
  qed
  done

lemma fill_offspring_diverges:
  "length newg < psize \<Longrightarrow>
   (\<And>s. case select_species sps (fst (neat_random_uniform (Num 0) tot s)) of
           None \<Rightarrow> True | Some sp \<Rightarrow> members sp = []) \<Longrightarrow>
   fill_offspring gs sps tot psize newg table seed = None"
  using fill_offspring_stuck [of gs sps tot psize newg table seed]
  by (cases "fill_offspring gs sps tot psize newg table seed") auto

text \<open>Sorting the members of a species permutes them.\<close>

lemma sort_inner_set:
  "j < length ms \<Longrightarrow> \<forall>k \<in> set ks. k < length ms \<Longrightarrow>
   set (fold (\<lambda>k ms2. if fitness (gs ! (ms2 ! j)) < fitness (gs ! (ms2 ! k))
                            then ms2[j := ms2 ! k, k := ms2 ! j] else ms2) ks ms) = set ms
   \<and> length (fold (\<lambda>k ms2. if fitness (gs ! (ms2 ! j)) < fitness (gs ! (ms2 ! k))
                            then ms2[j := ms2 ! k, k := ms2 ! j] else ms2) ks ms) = length ms"
proof (induction ks arbitrary: ms)
  case Nil
  then show ?case by simp
next
  case (Cons k ks)
  let ?ms = "if fitness (gs ! (ms ! j)) < fitness (gs ! (ms ! k))
             then ms[j := ms ! k, k := ms ! j] else ms"
  from Cons.prems have k: "k < length ms" by simp
  with Cons.prems(1) have s: "set ?ms = set ms" "length ?ms = length ms"
    by (simp_all add: set_swap)
  from Cons.IH [of ?ms] Cons.prems s show ?case by simp
qed

lemma sort_outer_set:
  "n \<le> length ms \<Longrightarrow> \<forall>j \<in> set js. j < length ms \<Longrightarrow>
   set (fold (\<lambda>j ms1.
             fold (\<lambda>k ms2. if fitness (gs ! (ms2 ! j)) < fitness (gs ! (ms2 ! k))
                            then ms2[j := ms2 ! k, k := ms2 ! j] else ms2)
               [j + 1 ..< n] ms1) js ms) = set ms"
proof (induction js arbitrary: ms)
  case Nil
  then show ?case by simp
next
  case (Cons j js)
  let ?ms = "fold (\<lambda>k ms2. if fitness (gs ! (ms2 ! j)) < fitness (gs ! (ms2 ! k))
                            then ms2[j := ms2 ! k, k := ms2 ! j] else ms2) [j + 1 ..< n] ms"
  from Cons.prems have "j < length ms" "\<forall>k \<in> set [j + 1 ..< n]. k < length ms" by auto
  from sort_inner_set [OF this, of gs] have s: "set ?ms = set ms" "length ?ms = length ms"
    by simp_all
  from Cons.IH [of ?ms] Cons.prems s show ?case by simp
qed

lemma set_sort_members: "set (sort_members gs ms) = set ms"
  unfolding sort_members_def by (rule sort_outer_set) auto

lemma sort_members_Nil_iff: "sort_members gs ms = [] \<longleftrightarrow> ms = []"
  using set_sort_members [of gs ms] by (metis set_empty)

lemma carry_over_elites_nonempty:
  "sps \<noteq> [] \<Longrightarrow> fst (carry_over_elites gs psize sps newg) \<noteq> []"
  by (cases sps) (auto simp: Let_def)

lemma carry_over_elites_members:
  "\<forall>sp \<in> set sps. P (set (members sp)) \<Longrightarrow>
   \<forall>sp \<in> set (fst (carry_over_elites gs psize sps newg)). P (set (members sp))"
  by (induction sps arbitrary: newg) (auto simp: Let_def set_sort_members)

lemma carry_over_elites_length:
  "length newg \<le> psize \<Longrightarrow> length (snd (carry_over_elites gs psize sps newg)) \<le> psize"
  by (induction sps arbitrary: newg) (auto simp: Let_def)

text \<open>
  Claim C10, as stated, fails: in \<open>stuck_population\<close> the species list contains a species
  with a member, yet \<^verbatim>\<open>neat_reproduce\<close> does not return. After the elite is carried over
  one place is left; the total average fitness is 0, so every draw \<open>r\<close> is 0 and selects
  the first species, which has no member, and the round ends with \<^verbatim>\<open>continue\<close>.
\<close>

theorem neat_reproduce_stuck_on_empty_species: "neat_reproduce stuck_population 1 = None"
proof -
  have "fill_offspring [neat_create_genome 0]
          [neat_create_species 1,
           (neat_create_species 2)\<lparr>members := [0], best_fitness := Num 0,
                    representative := Some 0\<rparr>] (Num 0) 2
          [neat_clone_genome (neat_create_genome 0)] neat_create_innovation_table 1 = None"
    by (rule fill_offspring_diverges)
       (simp_all add: neat_random_uniform_def split_def neat_create_species_def
          minus_double_def double_of_nat_def UINT32_MAX_def)
  then show ?thesis
    by (simp add: neat_reproduce_def stuck_population_def Let_def total_average_fitness_def
        sort_members_def neat_create_species_def)
qed

lemma reproduce_ends:
  assumes "species pop \<noteq> []" and "\<forall>sp \<in> set (species pop). members sp \<noteq> []"
  shows "\<exists>r. neat_reproduce pop seed = Some r
          \<and> (\<forall>pop1 seed1. r = Returns (pop1, seed1) \<longrightarrow>
                length (genomes pop1) = population_size pop)"
proof -
  let ?el = "carry_over_elites (genomes pop) (population_size pop) (species pop) []"
  from assms have 1: "fst ?el \<noteq> []" by (simp add: carry_over_elites_nonempty)
  from assms have "\<forall>sp \<in> set (species pop). set (members sp) \<noteq> {}" by simp
  from carry_over_elites_members [where P = "\<lambda>M. M \<noteq> {}", OF this]
  have 2: "\<forall>sp \<in> set (fst ?el). members sp \<noteq> []" by simp
  have 3: "length (snd ?el) \<le> population_size pop"
    by (intro carry_over_elites_length) simp
  from fill_offspring_terminates [OF 1 2, of "genomes pop"
      "total_average_fitness (species pop)" "population_size pop" "snd ?el"
      "innovation_table pop" seed]
  obtain r where r: "fill_offspring (genomes pop) (fst ?el)
      (total_average_fitness (species pop)) (population_size pop) (snd ?el)
      (innovation_table pop) seed = Some r"
      "\<forall>res. r = Returns res \<longrightarrow> length (fst res) = max (population_size pop) (length (snd ?el))"
    by blast
  with 3 show ?thesis
    by (cases r) (auto simp: neat_reproduce_def Let_def max_def)
qed

lemma reproduce_returns:
  assumes "species pop \<noteq> []" and "\<forall>sp \<in> set (species pop). members sp \<noteq> []"
    and "members_have_room pop"
  shows "\<exists>pop1 seed1. neat_reproduce pop seed = Some (Returns (pop1, seed1))
                     \<and> length (genomes pop1) = population_size pop"
proof -
  let ?el = "carry_over_elites (genomes pop) (population_size pop) (species pop) []"
  from assms have 1: "fst ?el \<noteq> []" by (simp add: carry_over_elites_nonempty)
  from assms have "\<forall>sp \<in> set (species pop). set (members sp) \<noteq> {}" by simp
  from carry_over_elites_members [where P = "\<lambda>M. M \<noteq> {}", OF this]
  have 2: "\<forall>sp \<in> set (fst ?el). members sp \<noteq> []" by simp
  have 3: "length (snd ?el) \<le> population_size pop"
    by (intro carry_over_elites_length) simp
  from assms(3)
  have "\<forall>sp \<in> set (species pop). \<forall>m \<in> set (members sp). room_to_split (genomes pop ! m)"
    by (simp add: members_have_room_def list_all_iff)
  from carry_over_elites_members
    [where P = "\<lambda>M. \<forall>m \<in> M. room_to_split (genomes pop ! m)", OF this]
  have 4: "\<forall>sp \<in> set (fst ?el). \<forall>m \<in> set (members sp). room_to_split (genomes pop ! m)" .
  from fill_offspring_returns [OF 1 2 4, of
      "total_average_fitness (species pop)" "population_size pop" "snd ?el"
      "innovation_table pop" seed]
  obtain res where res: "fill_offspring (genomes pop) (fst ?el)
      (total_average_fitness (species pop)) (population_size pop) (snd ?el)
      (innovation_table pop) seed = Some (Returns res)"
      "length (fst res) = max (population_size pop) (length (snd ?el))"
    by blast
  with 3 show ?thesis
    by (cases res) (simp add: neat_reproduce_def Let_def max_def)
qed

lemma reproduce_without_species:
  assumes "species pop = []" and "population_size pop > 0"
  shows "neat_reproduce pop seed = None"
proof -
  have "fill_offspring (genomes pop) [] (total_average_fitness []) (population_size pop) []
          (innovation_table pop) seed = None"
    using assms by (intro fill_offspring_diverges) simp_all
  with assms show ?thesis
    by (simp add: neat_reproduce_def Let_def)
qed

text \<open>
  The call can also end without returning. The node split of an offspring whose
  connection array is full reallocates the array in its first \<^verbatim>\<open>neat_add_connection\<close> and
  then reads \<^verbatim>\<open>conn_to_split->out_node\<close> through the old pointer.
\<close>

lemma connection_exists_update:
  "connection_exists (cs[i := (cs ! i)\<lparr>enabled := en\<rparr>]) a b = connection_exists cs a b"
  by (induction cs arbitrary: i) (auto split: nat.splits)

lemma neat_mutate_add_node_undefined:
  assumes "connections g \<noteq> []"
    and "fst (find_enabled_connection g 0 s) = Some i"
    and "connection_capacity g \<le> length (connections g)"
    and "\<not> connection_exists (connections g) (in_node (connections g ! nat i))
            (int (length (nodes g)))"
  shows "neat_mutate_add_node g table s = Undefined"
  using assms
  by (simp add: neat_mutate_add_node_def split_def Let_def neat_add_node_def
      connection_exists_update)

lemma draw_1: "xorshift32 54054616462975745 = (3459231167305437870, 3459231167305437870)"
  by (simp add: xorshift32_def)

lemma draw_2: "xorshift32 3459231167305437870 = (11859522555040201149, 11859522555040201149)"
  by (simp add: xorshift32_def)

lemma draw_3: "xorshift32 11859522555040201149 = (7642681795833704949, 7642681795833704949)"
  by (simp add: xorshift32_def)

lemma draw_4: "xorshift32 7642681795833704949 = (3038289534708702603, 3038289534708702603)"
  by (simp add: xorshift32_def)

lemma draw_5: "xorshift32 3038289534708702603 = (11097429138085957439, 11097429138085957439)"
  by (simp add: xorshift32_def)

lemma draw_6: "xorshift32 11097429138085957439 = (1265520983131475835, 1265520983131475835)"
  by (simp add: xorshift32_def)

lemma draw_7: "xorshift32 1265520983131475835 = (1, 1)"
  by (simp add: xorshift32_def)

text \<open>From the seed 54054616462975745 the seventh draw is 1, so the offspring of
  \<open>full_genome\<close> passes the rate test of the node split; the split picks connection 33.\<close>

lemma full_genome_split_undefined:
  "neat_mutate_add_node full_genome table 1 = Undefined"
proof (rule neat_mutate_add_node_undefined [where i = 33])
  show "connections full_genome \<noteq> []"
    by (simp add: full_genome_def upt_rec)
  show "fst (find_enabled_connection full_genome 0 1) = Some 33"
    by (subst find_enabled_connection.simps)
       (simp add: full_genome_def neat_random_int_def xorshift32_1 neat_create_connection_def)
  show "connection_capacity full_genome \<le> length (connections full_genome)"
    by (simp add: full_genome_def neat_create_genome_def NEAT_DEFAULT_ALLOC_SIZE_def)
  show "\<not> connection_exists (connections full_genome)
          (in_node (connections full_genome ! nat 33)) (int (length (nodes full_genome)))"
    by (auto simp: connection_exists_iff full_genome_def neat_create_connection_def)
qed

lemma full_genome_offspring_undefined:
  "make_offspring [full_genome] sp table 3459231167305437870 = Undefined"
  if "members sp = [0]"
proof -
  have t: "tournament_step [full_genome] [0] None s = (Some 0, snd (xorshift32 s))"
    "tournament_step [full_genome] [0] (Some 0) s = (Some 0, snd (xorshift32 s))" for s
    by (simp_all add: tournament_step_def neat_random_int_def split_def Let_def)
  have u: "neat_random_uniform (Num 0) (Num 1) 3038289534708702603
           = (Num (11097429138085957439 / 4294967295), 11097429138085957439)"
    by (simp add: neat_random_uniform_def draw_5 double_of_nat_def UINT32_MAX_def
        minus_double_def)
  have sel: "select_parents [full_genome] [0] 3459231167305437870
             = (0, None, 11097429138085957439)"
    by (simp add: select_parents_def t draw_2 draw_3 draw_4 u)
  have u1: "neat_random_uniform (Num 0) (Num 1) 11097429138085957439
           = (Num (1265520983131475835 / 4294967295), 1265520983131475835)"
    by (simp add: neat_random_uniform_def draw_6 double_of_nat_def UINT32_MAX_def
        minus_double_def)
  have u2: "neat_random_uniform (Num 0) (Num 1) 1265520983131475835
           = (Num (1 / 4294967295), 1)"
    by (simp add: neat_random_uniform_def draw_7 double_of_nat_def UINT32_MAX_def
        minus_double_def)
  have c: "neat_clone_genome full_genome = full_genome"
    by (simp add: neat_clone_genome_def full_genome_def neat_create_genome_def)
  have "neat_mutate full_genome (Some table) 11097429138085957439 = Undefined"
    by (simp add: neat_mutate_def u1 u2 NEAT_MUTATE_WEIGHT_RATE_def NEAT_MUTATE_NODE_RATE_def
        full_genome_split_undefined)
  with that show ?thesis
    by (simp add: make_offspring_def sel c)
qed

lemma reproduce_undefined_on_full_array:
  "species full_population \<noteq> []
   \<and> list_all (\<lambda>sp. members sp \<noteq> []) (species full_population)
   \<and> neat_reproduce full_population 54054616462975745 = Some Undefined"
proof -
  let ?sp = "(neat_create_species 1)\<lparr>members := [0], best_fitness := Num 0,
                   representative := Some 0\<rparr>"
  have u: "neat_random_uniform (Num 0) (Num 0) 54054616462975745
           = (Num 0, 3459231167305437870)"
    by (simp add: neat_random_uniform_def draw_1 double_of_nat_def UINT32_MAX_def
        minus_double_def)
  have "fill_offspring [full_genome] [?sp] (Num 0) 2 [neat_clone_genome full_genome]
          neat_create_innovation_table 54054616462975745 = Some Undefined"
    by (subst fill_offspring.simps)
       (simp add: u full_genome_offspring_undefined neat_create_species_def)
  then show ?thesis
    by (simp add: neat_reproduce_def full_population_def Let_def total_average_fitness_def
        sort_members_def neat_create_species_def)
qed

text \<open>
  Claim C10, amended: for every population whose species list is not empty and all of
  whose species have at least one member, the offspring loop of \<^verbatim>\<open>neat_reproduce\<close>
  completes after finitely many rounds, and when the call returns the new genome list
  has the target size. The one way to end without returning is a node split that reads
  through \<^verbatim>\<open>conn_to_split\<close> after the connection array was reallocated, which C leaves
  undefined; when every genome that a species points to has room for a split, the call
  returns. With an empty species list and a target size above 0 the loop does not end.
\<close>

theorem neat_reproduce_terminates_iff_selectable:
  "(species pop \<noteq> [] \<and> (\<forall>sp \<in> set (species pop). members sp \<noteq> []) \<longrightarrow>
      (\<exists>r. neat_reproduce pop seed = Some r
          \<and> (\<forall>pop1 seed1. r = Returns (pop1, seed1) \<longrightarrow>
                length (genomes pop1) = population_size pop))
      \<and> (members_have_room pop \<longrightarrow>
          (\<exists>pop1 seed1. neat_reproduce pop seed = Some (Returns (pop1, seed1))
                       \<and> length (genomes pop1) = population_size pop)))
   \<and> (species pop = [] \<and> population_size pop > 0 \<longrightarrow> neat_reproduce pop seed = None)"
  using reproduce_ends [of pop seed] reproduce_returns [of pop seed]
    reproduce_without_species [of pop seed]
  by blast

text \<open>
  Witness for the amended claim C10: a population with two species of one and two
  members, whose genomes have no connections, and target size 5; and a population
  without species and target size 1.
\<close>

theorem neat_reproduce_terminates_iff_selectable_witness:
  "members_have_room two_species_population
   \<and> (\<exists>pop1 seed1. neat_reproduce two_species_population 1 = Some (Returns (pop1, seed1))
                   \<and> length (genomes pop1) = 5)
   \<and> neat_reproduce no_species_population 1 = None"
  using neat_reproduce_terminates_iff_selectable [of two_species_population 1]
    neat_reproduce_terminates_iff_selectable [of no_species_population 1]
  by (simp add: two_species_population_def no_species_population_def neat_create_species_def
      members_have_room_def room_to_split_def fit_genome_def neat_create_genome_def
      NEAT_DEFAULT_ALLOC_SIZE_def)

section \<open>Stagnation over one generation\<close>

















section \<open>Properties of the node split\<close>

lemma find_innovation_append:
  "find_innovation (xs @ ys) i_n o_n b =
     (case find_innovation xs i_n o_n b of
        Some k \<Rightarrow> Some k
      | None \<Rightarrow> find_innovation ys i_n o_n b)"
  by (induction xs) auto

text \<open>The registry returns the number it has recorded when it is asked for the same key
  again, also for a key with \<open>is_new_node\<close> set.\<close>

lemma neat_get_innovation_memoises:
  "neat_get_innovation (snd (neat_get_innovation t i_n o_n b nid w)) i_n o_n b nid2 w2 =
     neat_get_innovation t i_n o_n b nid w"
  by (simp add: neat_get_innovation_def find_innovation_append Let_def split: option.splits)

text \<open>The node that a split adds has the node count of its own genome as its id.\<close>

lemma neat_add_connection_nodes:
  "nodes (snd (neat_add_connection g i_n o_n w en)) = nodes g"
  by (simp add: neat_add_connection_def)

lemma neat_mutate_add_node_local_id:
  assumes "neat_mutate_add_node g table s = Returns (g1, table1, s1)"
  shows "nodes g1 = nodes g
   \<or> (\<exists>node. nodes g1 = nodes g @ [node] \<and> node_id node = int (length (nodes g)))"
proof (cases "connections g = []")
  case True
  with assms show ?thesis by (simp add: neat_mutate_add_node_def)
next
  case False
  show ?thesis
  proof (cases "fst (find_enabled_connection g 0 s)")
    case None
    with False assms show ?thesis
      by (simp add: neat_mutate_add_node_def split_def)
  next
    case (Some i)
    with False assms have "nodes g1 = nodes g @
        [fst (neat_create_node (int (length (nodes g))) NEAT_NODE_HIDDEN NEAT_PLACEMENT_HIDDEN
               (snd (find_enabled_connection g 0 s)))]"
      by (auto simp: neat_mutate_add_node_def split_def Let_def neat_add_node_def
          neat_add_connection_nodes split: if_splits)
    then show ?thesis by (simp add: neat_create_node_def split_def Let_def)
  qed
qed

text \<open>
  Claim C3 at a failing input: the same connection 0 to 1 is split in \<open>split_genome_a\<close>
  (two nodes) and then in \<open>split_genome_b\<close> (three nodes) against the same innovation
  table, which is not reset in between. The synthesised node gets the id 2 in the first
  genome and 3 in the second, and the two replacement connections get the innovation
  numbers 4 and 6 in the first genome and 8 and 10 in the second.
\<close>

theorem node_split_ids_depend_on_node_count:
  "case neat_mutate_add_node split_genome_a (Some one_link_table) 1 of
     Undefined \<Rightarrow> False
   | Returns (g1, table1, seed1) \<Rightarrow>
       (case neat_mutate_add_node split_genome_b table1 seed1 of
          Undefined \<Rightarrow> False
        | Returns (g2, table2, seed2) \<Rightarrow>
            map node_id (nodes g1) = [0, 1, 2]
            \<and> map node_id (nodes g2) = [0, 1, 2, 3]
            \<and> map (\<lambda>c. (innovation c, in_node c, out_node c)) (connections g1)
                = [(2, 0, 1), (4, 0, 2), (6, 2, 1)]
            \<and> map (\<lambda>c. (innovation c, in_node c, out_node c)) (connections g2)
                = [(2, 0, 1), (8, 0, 3), (10, 3, 1)])"
  by (simp add: neat_mutate_add_node_def split_genome_a_def split_genome_b_def
      in_out_genome_def neat_create_genome_def neat_create_connection_def input_node_def
      output_node_def hidden_node_def one_link_table_def find_enabled_connection.simps
      neat_random_int_def split_def Let_def neat_add_node_def neat_create_node_def
      neat_get_innovation_def neat_add_connection_def set_innovation_def
      NEAT_DEFAULT_ALLOC_SIZE_def NEAT_GROWTH_FACTOR_def xorshift32_def)

section \<open>The size of the next generation\<close>

text \<open>Whenever \<^verbatim>\<open>neat_reproduce\<close> or \<^verbatim>\<open>neat_evolve\<close> returns, the population holds exactly
  \<open>population_size\<close> genomes.\<close>

lemma fill_offspring_length:
  assumes "fill_offspring gs sps tot psize newg table seed = Some (Returns y)"
    and "length newg \<le> psize"
  shows "length (fst y) = psize"
  apply (rule fill_offspring.raw_induct
    [where P = "\<lambda>gs sps tot psize newg table seed r. \<forall>y. r = Returns y \<longrightarrow>
                  length newg \<le> psize \<longrightarrow> length (fst y) = psize", OF _ assms(1), rule_format])
  subgoal premises p for f gs sps tot psize newg table seed r y
    using p(2) p(3) p(4)
    by (auto split: if_splits option.splits outcome.splits dest!: p(1))
  using assms(2) by simp_all

lemma neat_reproduce_size:
  "neat_reproduce pop seed = Some (Returns (pop1, seed1)) \<Longrightarrow>
   length (genomes pop1) = population_size pop \<and> population_size pop1 = population_size pop"
  using fill_offspring_length [of "genomes pop"
      "fst (carry_over_elites (genomes pop) (population_size pop) (species pop) [])"
      "total_average_fitness (species pop)" "population_size pop"
      "snd (carry_over_elites (genomes pop) (population_size pop) (species pop) [])"
      "innovation_table pop" seed]
    carry_over_elites_length [of "[]" "population_size pop" "genomes pop" "species pop"]
  by (auto simp: neat_reproduce_def Let_def split: option.splits outcome.splits)

lemma neat_evolve_size:
  "neat_evolve pop seed = Some (Returns (pop1, seed1)) \<Longrightarrow>
   length (genomes pop1) = population_size pop"
  by (auto simp: neat_evolve_def Let_def neat_remove_stale_species_def neat_speciate_def
      neat_remove_weak_species_def evaluate_and_speciate_def
      split: option.splits if_splits outcome.splits dest!: neat_reproduce_size)

end
